theory Spec2Isabelle
  imports Main "HOL-Library.AList"
begin

section \<open>Python values, dictionaries and exceptions\<close>

text \<open>
  The service (\<^verbatim>\<open>catalog_lookup_service.py\<close>) is dynamically typed: the request body and the
  two metadata-API responses are decoded JSON, and the metadata and enrichment records are
  Python dictionaries. A JSON value is a \<open>pyval\<close>; a dictionary is an association list in
  insertion order with distinct keys. JSON numbers with a fraction are left out: the service
  reads no field that holds one.

  A character of a \<open>string\<close> stands for the Unicode code point of the same number, so the
  strings of the model are the Python strings over U+0000 to U+00FF.
\<close>

datatype pyval =
    PNone
  | PBool bool
  | PInt int
  | PStr string
  | PList "pyval list"
  | PDict "(string \<times> pyval) list"

type_synonym pydict = "(string \<times> pyval) list"

text \<open>Truth value testing (\<^verbatim>\<open>if x\<close>, \<^verbatim>\<open>not x\<close>, \<^verbatim>\<open>x or y\<close>, \<^verbatim>\<open>x and y\<close>).\<close>

fun truthy :: "pyval \<Rightarrow> bool" where
  "truthy PNone = False"
| "truthy (PBool b) = b"
| "truthy (PInt n) = (n \<noteq> 0)"
| "truthy (PStr s) = (s \<noteq> [])"
| "truthy (PList xs) = (xs \<noteq> [])"
| "truthy (PDict d) = (d \<noteq> [])"

definition py_or :: "pyval \<Rightarrow> pyval \<Rightarrow> pyval" where
  "py_or a b = (if truthy a then a else b)"

text \<open>
  The exceptions the code can raise. Every one of them is an \<^verbatim>\<open>Exception\<close>, which is what
  the four \<^verbatim>\<open>except Exception\<close> handlers catch. \<open>AttributeError ty attr\<close> is raised by
  \<^verbatim>\<open>x.attr\<close> on a value of type \<open>ty\<close> without that attribute; \<open>OtherError msg\<close> stands for
  an exception of the web framework or the HTTP client with message \<open>msg\<close>.
\<close>

datatype exn =
    AttributeError string string
  | KeyError
  | TypeError
  | ValueError
  | IndexError
  | OtherError string

type_synonym 'a result = "exn + 'a"

fun exn_str :: "exn \<Rightarrow> string" where
  "exn_str (AttributeError ty attr) =
     [CHR 0x27] @ ty @ [CHR 0x27] @ '' object has no attribute '' @ [CHR 0x27] @ attr @ [CHR 0x27]"
| "exn_str KeyError = ''KeyError''"
| "exn_str TypeError = ''TypeError''"
| "exn_str ValueError = ''ValueError''"
| "exn_str IndexError = ''IndexError''"
| "exn_str (OtherError msg) = msg"

fun type_name :: "pyval \<Rightarrow> string" where
  "type_name PNone = ''NoneType''"
| "type_name (PBool b) = ''bool''"
| "type_name (PInt n) = ''int''"
| "type_name (PStr s) = ''str''"
| "type_name (PList xs) = ''list''"
| "type_name (PDict d) = ''dict''"

text \<open>Dictionaries the code builds itself: \<^verbatim>\<open>d.get(k)\<close>, \<^verbatim>\<open>d.get(k, default)\<close>,
  \<^verbatim>\<open>d[k] = v\<close> and \<^verbatim>\<open>d.update({...})\<close>.\<close>

definition dict_get :: "pydict \<Rightarrow> string \<Rightarrow> pyval" where
  "dict_get d k = (case map_of d k of None \<Rightarrow> PNone | Some v \<Rightarrow> v)"

definition dict_get_default :: "pydict \<Rightarrow> string \<Rightarrow> pyval \<Rightarrow> pyval" where
  "dict_get_default d k dflt = (case map_of d k of None \<Rightarrow> dflt | Some v \<Rightarrow> v)"

definition dict_set :: "pydict \<Rightarrow> string \<Rightarrow> pyval \<Rightarrow> pydict" where
  "dict_set d k v = AList.update k v d"

definition dict_update :: "pydict \<Rightarrow> pydict \<Rightarrow> pydict" where
  "dict_update d kvs = foldl (\<lambda>acc kv. AList.update (fst kv) (snd kv) acc) d kvs"

text \<open>The same operations on a decoded JSON value, which need not be a dictionary:
  \<^verbatim>\<open>x.get(k)\<close> and \<^verbatim>\<open>x.get(k, default)\<close> raise AttributeError on anything else, \<^verbatim>\<open>x[k]\<close> with a
  string key raises KeyError on a dictionary without the key and TypeError on anything
  else.\<close>

fun py_get :: "pyval \<Rightarrow> string \<Rightarrow> pyval result" where
  "py_get (PDict d) k = Inr (dict_get d k)"
| "py_get v k = Inl (AttributeError (type_name v) ''get'')"

fun py_get_default :: "pyval \<Rightarrow> string \<Rightarrow> pyval \<Rightarrow> pyval result" where
  "py_get_default (PDict d) k dflt = Inr (dict_get_default d k dflt)"
| "py_get_default v k dflt = Inl (AttributeError (type_name v) ''get'')"

fun py_item :: "pyval \<Rightarrow> string \<Rightarrow> pyval result" where
  "py_item (PDict d) k = (case map_of d k of None \<Rightarrow> Inl KeyError | Some v \<Rightarrow> Inr v)"
| "py_item v k = Inl TypeError"

text \<open>\<^verbatim>\<open>x[0]\<close>, \<^verbatim>\<open>len(x)\<close> and iteration. A decoded JSON dictionary has string keys only, so
  \<^verbatim>\<open>x[0]\<close> on it is a KeyError.\<close>

fun py_first :: "pyval \<Rightarrow> pyval result" where
  "py_first (PList []) = Inl IndexError"
| "py_first (PList (x # xs)) = Inr x"
| "py_first (PStr []) = Inl IndexError"
| "py_first (PStr (c # cs)) = Inr (PStr [c])"
| "py_first (PDict d) = Inl KeyError"
| "py_first v = Inl TypeError"

fun py_len :: "pyval \<Rightarrow> nat result" where
  "py_len (PList xs) = Inr (length xs)"
| "py_len (PStr s) = Inr (length s)"
| "py_len (PDict d) = Inr (length d)"
| "py_len v = Inl TypeError"

fun py_iter :: "pyval \<Rightarrow> pyval list result" where
  "py_iter (PList xs) = Inr xs"
| "py_iter (PStr s) = Inr (map (\<lambda>c. PStr [c]) s)"
| "py_iter (PDict d) = Inr (map (\<lambda>kv. PStr (fst kv)) d)"
| "py_iter v = Inl TypeError"

section \<open>Python strings\<close>

text \<open>\<^verbatim>\<open>str.isspace\<close> on U+0000 to U+00FF; \<^verbatim>\<open>str.strip()\<close>, the \<^verbatim>\<open>\s\<close> of \<^verbatim>\<open>re\<close> and
  \<^verbatim>\<open>int()\<close> all use this set.\<close>

definition is_space :: "char \<Rightarrow> bool" where
  "is_space c = (c \<in> set [CHR 0x09, CHR 0x0A, CHR 0x0B, CHR 0x0C, CHR 0x0D, CHR 0x1C,
                           CHR 0x1D, CHR 0x1E, CHR 0x1F, CHR 0x20, CHR 0x85, CHR 0xA0])"

definition is_digit :: "char \<Rightarrow> bool" where
  "is_digit c = (c \<in> set ''0123456789'')"

definition strip :: "string \<Rightarrow> string" where
  "strip s = rev (dropWhile is_space (rev (dropWhile is_space s)))"

text \<open>\<^verbatim>\<open>str.lower()\<close>: A to Z, and the capital letters U+00C0 to U+00DE but the
  multiplication sign U+00D7, are replaced by the letter 32 code points up.\<close>

definition upper_chars :: string where
  "upper_chars = ''ABCDEFGHIJKLMNOPQRSTUVWXYZ'' @
     [CHR 0xC0, CHR 0xC1, CHR 0xC2, CHR 0xC3, CHR 0xC4, CHR 0xC5, CHR 0xC6,
      CHR 0xC7, CHR 0xC8, CHR 0xC9, CHR 0xCA, CHR 0xCB, CHR 0xCC, CHR 0xCD,
      CHR 0xCE, CHR 0xCF, CHR 0xD0, CHR 0xD1, CHR 0xD2, CHR 0xD3, CHR 0xD4,
      CHR 0xD5, CHR 0xD6, CHR 0xD8, CHR 0xD9, CHR 0xDA, CHR 0xDB, CHR 0xDC,
      CHR 0xDD, CHR 0xDE]"

definition lower_chars :: string where
  "lower_chars = ''abcdefghijklmnopqrstuvwxyz'' @
     [CHR 0xE0, CHR 0xE1, CHR 0xE2, CHR 0xE3, CHR 0xE4, CHR 0xE5, CHR 0xE6,
      CHR 0xE7, CHR 0xE8, CHR 0xE9, CHR 0xEA, CHR 0xEB, CHR 0xEC, CHR 0xED,
      CHR 0xEE, CHR 0xEF, CHR 0xF0, CHR 0xF1, CHR 0xF2, CHR 0xF3, CHR 0xF4,
      CHR 0xF5, CHR 0xF6, CHR 0xF8, CHR 0xF9, CHR 0xFA, CHR 0xFB, CHR 0xFC,
      CHR 0xFD, CHR 0xFE]"

definition lower_char :: "char \<Rightarrow> char" where
  "lower_char c = (case map_of (zip upper_chars lower_chars) c of None \<Rightarrow> c | Some d \<Rightarrow> d)"

definition lower :: "string \<Rightarrow> string" where
  "lower s = map lower_char s"

definition startswith :: "string \<Rightarrow> string \<Rightarrow> bool" where
  "startswith s p = (take (length p) s = p)"

text \<open>\<^verbatim>\<open>needle in hay\<close>.\<close>

fun str_in :: "string \<Rightarrow> string \<Rightarrow> bool" where
  "str_in needle [] = (needle = [])"
| "str_in needle (c # cs) = (startswith (c # cs) needle \<or> str_in needle cs)"

text \<open>\<^verbatim>\<open>s.split(sep)\<close> and \<^verbatim>\<open>s.replace(old, new)\<close> for a separator and an \<open>old\<close> that are
  not empty (the code passes literals): both scan from the left and continue after each
  occurrence.\<close>

fun py_split_from :: "string \<Rightarrow> string \<Rightarrow> string \<Rightarrow> string list" where
  "py_split_from sep cur [] = [cur]"
| "py_split_from sep cur (c # cs) =
     (if sep \<noteq> [] \<and> startswith (c # cs) sep
      then cur # py_split_from sep [] (drop (length sep - 1) cs)
      else py_split_from sep (cur @ [c]) cs)"

definition py_split :: "string \<Rightarrow> string \<Rightarrow> string list" where
  "py_split s sep = py_split_from sep [] s"

fun py_replace :: "string \<Rightarrow> string \<Rightarrow> string \<Rightarrow> string" where
  "py_replace old new [] = []"
| "py_replace old new (c # cs) =
     (if old \<noteq> [] \<and> startswith (c # cs) old
      then new @ py_replace old new (drop (length old - 1) cs)
      else c # py_replace old new cs)"

text \<open>\<^verbatim>\<open>int(s)\<close> on a string: white space around is dropped, a sign may lead, and the rest
  is decimal digits, where single underscores may stand between digits. \<open>None\<close> is the
  ValueError. The white space of \<^verbatim>\<open>int()\<close> is not that of \<^verbatim>\<open>strip()\<close>: the four separators
  U+001C to U+001F are no white space for it. And the conversion refuses more than 4300
  digits: that is the interpreter's limit (\<^verbatim>\<open>sys.int_info.default_max_str_digits\<close> of
  CPython 3.11), which the service leaves at its default.\<close>

definition is_int_space :: "char \<Rightarrow> bool" where
  "is_int_space c = (c \<in> set [CHR 0x09, CHR 0x0A, CHR 0x0B, CHR 0x0C, CHR 0x0D, CHR 0x20,
                               CHR 0x85, CHR 0xA0])"

definition int_strip :: "string \<Rightarrow> string" where
  "int_strip s = rev (dropWhile is_int_space (rev (dropWhile is_int_space s)))"

definition max_str_digits :: nat where
  "max_str_digits = 4300"

definition digit_val :: "char \<Rightarrow> int" where
  "digit_val c = int (of_char c) - 48"

definition digits_val :: "string \<Rightarrow> int" where
  "digits_val ds = foldl (\<lambda>acc c. 10 * acc + digit_val c) 0 ds"

fun valid_digits :: "string \<Rightarrow> bool" where
  "valid_digits [] = False"
| "valid_digits [c] = is_digit c"
| "valid_digits (c # d # cs) =
     (is_digit c \<and> (if d = CHR ''_'' then valid_digits cs else valid_digits (d # cs)))"

definition parse_digits :: "string \<Rightarrow> int option" where
  "parse_digits s =
     (let ds = filter (\<lambda>c. c \<noteq> CHR ''_'') s
      in if valid_digits s \<and> length ds \<le> max_str_digits then Some (digits_val ds) else None)"

definition py_int :: "string \<Rightarrow> int option" where
  "py_int s =
     (case int_strip s of
        [] \<Rightarrow> None
      | c # cs \<Rightarrow>
          if c = CHR ''-'' then map_option uminus (parse_digits cs)
          else if c = CHR ''+'' then parse_digits cs
          else parse_digits (c # cs))"

section \<open>The three regular expressions\<close>

text \<open>
  \<^verbatim>\<open>re.match(r"(.+?)\s*\[", text)\<close>, the value of group 1. The match is anchored at the start.
  The lazy group takes one character that is not a line feed, then as few more as possible:
  after each it tries \<^verbatim>\<open>\s*\[\<close>, which succeeds exactly when the rest, without its leading
  white space, starts with a bracket. The group cannot cross a line feed.
\<close>

definition bracket_follows :: "string \<Rightarrow> bool" where
  "bracket_follows s = (case dropWhile is_space s of [] \<Rightarrow> False | c # cs \<Rightarrow> c = CHR ''['')"

fun title_match_from :: "string \<Rightarrow> string \<Rightarrow> string option" where
  "title_match_from grp [] = None"
| "title_match_from grp (c # cs) =
     (if c = CHR 0x0A then None
      else if bracket_follows cs then Some (grp @ [c])
      else title_match_from (grp @ [c]) cs)"

definition title_match :: "string \<Rightarrow> string option" where
  "title_match s = title_match_from [] s"

text \<open>\<^verbatim>\<open>re.search(r"\((\d{4})\)", text)\<close>, group 1: the four digits of the leftmost
  parenthesised group of exactly four digits.\<close>

fun year_search :: "string \<Rightarrow> string option" where
  "year_search [] = None"
| "year_search (c # cs) =
     (if c = CHR ''('' \<and> length cs \<ge> 5 \<and> list_all is_digit (take 4 cs) \<and> cs ! 4 = CHR '')''
      then Some (take 4 cs)
      else year_search cs)"

text \<open>\<^verbatim>\<open>re.search(r"(\d+)", text)\<close>, group 1: the leftmost longest run of digits.\<close>

definition digits_search :: "string \<Rightarrow> string option" where
  "digits_search s =
     (case dropWhile (\<lambda>c. \<not> is_digit c) s of
        [] \<Rightarrow> None
      | c # cs \<Rightarrow> Some (takeWhile is_digit (c # cs)))"

section \<open>The outside world\<close>

text \<open>
  What the parser hands to the code for a fetched page. The HTML parser is a library, so a
  page is given by the answers to the queries the code makes, each in document order:
  the text of the first \<^verbatim>\<open>title\<close> and \<^verbatim>\<open>h1\<close> element, \<^verbatim>\<open>str(soup)\<close>, the \<^verbatim>\<open>img\<close> elements with
  their \<^verbatim>\<open>src\<close> and \<^verbatim>\<open>width\<close> attributes, every \<^verbatim>\<open>dt\<close> element's text with the text of its next
  \<^verbatim>\<open>dd\<close> sibling, the \<^verbatim>\<open>a\<close> elements, the \<^verbatim>\<open>div\<close> elements and the \<^verbatim>\<open>p\<close> elements. An absent
  element or attribute is \<open>None\<close>. Element objects are always true in a Python condition,
  so \<^verbatim>\<open>if element:\<close> asks whether the element was found.
\<close>

record img =
  img_src :: "string option"
  img_width :: "string option"

record link =
  link_href :: "string option"
  link_text :: string

record element =
  el_class :: "string option"
  el_string :: "string option"
  el_text :: string

record page =
  title_element :: "string option"
  h1_element :: "string option"
  soup_str :: string
  img_elements :: "img list"
  dt_elements :: "(string \<times> string option) list"
  a_elements :: "link list"
  div_elements :: "element list"
  p_elements :: "element list"

text \<open>
  An outbound request either fails or delivers the decoded body. It fails when
  \<^verbatim>\<open>requests.get\<close> raises (no connection, timeout), when \<^verbatim>\<open>raise_for_status\<close> raises on a status
  that is not 2xx, or when the body cannot be decoded; each of the three is an exception
  inside the \<^verbatim>\<open>try\<close> of the stage.
\<close>

datatype failure = ConnectionFailed | BadStatus nat | BadBody

datatype 'a fetch = Failed failure | Fetched 'a

text \<open>
  The world of one request. Each request URL is a function of the arguments listed, so
  the answer is given as a function of them:
  \<^item> \<open>google_get catalog_number\<close>: the search page, as the \<^verbatim>\<open>href\<close> values of
    \<^verbatim>\<open>soup.select("a[href]")\<close>;
  \<^item> \<open>lddb_get url\<close>: the page at \<open>url\<close>;
  \<^item> \<open>tmdb_search_get key title year\<close>: the decoded search response (\<open>year\<close> is \<open>PNone\<close>
    when the code appends no year parameter);
  \<^item> \<open>tmdb_details_get key movie_id\<close>: the decoded details response;
  \<^item> the two environment variables;
  \<^item> the library functions \<^verbatim>\<open>urllib.parse.unquote\<close> and \<^verbatim>\<open>str()\<close> (the latter only ever applied
    to a value that is not a string).
  Lines printed to the console are not modelled.
\<close>

record world =
  unquote :: "string \<Rightarrow> string"
  py_str :: "pyval \<Rightarrow> string"
  env_TMDB_API_KEY :: "string option"
  env_VITE_TMDB_API_KEY :: "string option"
  google_get :: "string \<Rightarrow> string list fetch"
  lddb_get :: "string \<Rightarrow> page fetch"
  tmdb_search_get :: "string \<Rightarrow> string \<Rightarrow> pyval \<Rightarrow> pyval fetch"
  tmdb_details_get :: "string \<Rightarrow> pyval \<Rightarrow> pyval fetch"

section \<open>Locator: \<^verbatim>\<open>search_lddb_catalog_number\<close>\<close>

text \<open>The loop over the anchors (lines 33 to 48). \<^verbatim>\<open>href.split("&")[0]\<close> is the head of
  a list that is never empty.\<close>

fun scan_links :: "(string \<Rightarrow> string) \<Rightarrow> string list \<Rightarrow> string option" where
  "scan_links unq [] = None"
| "scan_links unq (href # rest) =
     (if str_in ''lddb.com'' href \<and> str_in ''/laserdisc/'' href then
        (if startswith href ''/url?q='' then
           Some (unq (py_replace ''/url?q='' [] (hd (py_split href ''&''))))
         else if startswith href ''https://www.lddb.com'' then Some href
         else scan_links unq rest)
      else scan_links unq rest)"

definition search_lddb_catalog_number :: "world \<Rightarrow> string \<Rightarrow> string option" where
  "search_lddb_catalog_number w catalog_number =
     (case google_get w catalog_number of
        Failed f \<Rightarrow> None
      | Fetched hrefs \<Rightarrow> scan_links (unquote w) hrefs)"

section \<open>Extractor: \<^verbatim>\<open>scrape_lddb_metadata\<close>\<close>

definition initial_metadata :: "string \<Rightarrow> pydict" where
  "initial_metadata lddb_url =
     [(''title'', PStr ''Unknown Title''),
      (''year'', PNone),
      (''runtime'', PNone),
      (''format'', PStr ''LaserDisc''),
      (''genres'', PList []),
      (''coverUrl'', PNone),
      (''director'', PNone),
      (''cast'', PList []),
      (''description'', PNone),
      (''catalogNumber'', PNone),
      (''sourceUrl'', PStr lddb_url)]"

text \<open>Lines 82 to 90: the title element.\<close>

definition title_from_text :: "string \<Rightarrow> string" where
  "title_from_text txt =
     (let title_text = strip txt
      in case title_match title_text of
           Some grp \<Rightarrow> strip grp
         | None \<Rightarrow> strip (hd (py_split title_text '' - '')))"

definition title_step :: "page \<Rightarrow> pydict \<Rightarrow> pydict" where
  "title_step pg metadata =
     (case title_element pg of
        None \<Rightarrow> metadata
      | Some txt \<Rightarrow> dict_set metadata ''title'' (PStr (title_from_text txt)))"

text \<open>Lines 93 to 95: the first heading as backup. The key \<^verbatim>\<open>title\<close> is in the dictionary
  from the start, so \<^verbatim>\<open>metadata["title"]\<close> cannot raise.\<close>

definition h1_step :: "page \<Rightarrow> pydict \<Rightarrow> pydict" where
  "h1_step pg metadata =
     (case h1_element pg of
        None \<Rightarrow> metadata
      | Some txt \<Rightarrow>
          if dict_get metadata ''title'' = PStr ''Unknown Title''
          then dict_set metadata ''title'' (PStr (strip txt))
          else metadata)"

text \<open>Lines 98 to 100: the year.\<close>

definition year_step :: "page \<Rightarrow> pydict \<Rightarrow> pydict result" where
  "year_step pg metadata =
     (case year_search (soup_str pg) of
        None \<Rightarrow> Inr metadata
      | Some grp \<Rightarrow>
          (case py_int grp of
             None \<Rightarrow> Inl ValueError
           | Some n \<Rightarrow> Inr (dict_set metadata ''year'' (PInt n))))"

text \<open>Lines 103 to 113: the cover image. The two anonymous functions are applied to the
  attribute's value, \<open>None\<close> when the element has no such attribute; \<^verbatim>\<open>soup.find\<close> stops at the
  first element for which the function returns a true value, and an exception of the
  function leaves \<^verbatim>\<open>soup.find\<close>.\<close>

definition src_is_cover :: "string option \<Rightarrow> bool" where
  "src_is_cover x =
     (case x of
        None \<Rightarrow> False
      | Some s \<Rightarrow> s \<noteq> [] \<and> (str_in ''cover'' (lower s) \<or> str_in ''poster'' (lower s)))"

definition width_over_100 :: "string option \<Rightarrow> bool result" where
  "width_over_100 x =
     (case x of
        None \<Rightarrow> Inr False
      | Some s \<Rightarrow>
          if s = [] then Inr False
          else (case py_int s of None \<Rightarrow> Inl ValueError | Some n \<Rightarrow> Inr (n > 100)))"

fun find_img_by_width :: "img list \<Rightarrow> img option result" where
  "find_img_by_width [] = Inr None"
| "find_img_by_width (i # rest) =
     (case width_over_100 (img_width i) of
        Inl e \<Rightarrow> Inl e
      | Inr b \<Rightarrow> if b then Inr (Some i) else find_img_by_width rest)"

definition find_cover_img :: "img list \<Rightarrow> img option result" where
  "find_cover_img imgs =
     (case find (\<lambda>i. src_is_cover (img_src i)) imgs of
        Some i \<Rightarrow> Inr (Some i)
      | None \<Rightarrow>
          if list_ex (\<lambda>i. img_width i \<noteq> None) imgs then find_img_by_width imgs
          else Inr None)"

definition cover_step :: "page \<Rightarrow> pydict \<Rightarrow> pydict result" where
  "cover_step pg metadata =
     (case find_cover_img (img_elements pg) of
        Inl e \<Rightarrow> Inl e
      | Inr None \<Rightarrow> Inr metadata
      | Inr (Some cover_img) \<Rightarrow>
          (let cover_src = (case img_src cover_img of None \<Rightarrow> [] | Some s \<Rightarrow> s)
           in if startswith cover_src ''/''
              then Inr (dict_set metadata ''coverUrl'' (PStr (''https://www.lddb.com'' @ cover_src)))
              else if startswith cover_src ''http''
              then Inr (dict_set metadata ''coverUrl'' (PStr cover_src))
              else Inr metadata))"

text \<open>Lines 116 to 131: one turn of the loop over the definition terms, and the loop.\<close>

definition dt_step :: "pydict \<Rightarrow> string \<times> string option \<Rightarrow> pydict result" where
  "dt_step metadata pair =
     (case snd pair of
        None \<Rightarrow> Inr metadata
      | Some dd_text \<Rightarrow>
          (let label = lower (strip (fst pair)); val = strip dd_text
           in if str_in ''director'' label then Inr (dict_set metadata ''director'' (PStr val))
              else if str_in ''genre'' label \<or> str_in ''category'' label
              then Inr (dict_set metadata ''genres''
                          (PList (map (\<lambda>g. PStr (strip g)) (py_split val '',''))))
              else if str_in ''runtime'' label \<or> str_in ''duration'' label
              then (case digits_search val of
                      None \<Rightarrow> Inr metadata
                    | Some grp \<Rightarrow>
                        (case py_int grp of
                           None \<Rightarrow> Inl ValueError
                         | Some n \<Rightarrow> Inr (dict_set metadata ''runtime'' (PInt n))))
              else if str_in ''catalog'' label \<or> str_in ''number'' label
              then Inr (dict_set metadata ''catalogNumber'' (PStr val))
              else Inr metadata))"

fun dt_loop :: "pydict \<Rightarrow> (string \<times> string option) list \<Rightarrow> pydict result" where
  "dt_loop metadata [] = Inr metadata"
| "dt_loop metadata (pair # rest) =
     (case dt_step metadata pair of
        Inl e \<Rightarrow> Inl e
      | Inr metadata' \<Rightarrow> dt_loop metadata' rest)"

text \<open>Lines 134 to 136: the cast.\<close>

definition href_is_person :: "string option \<Rightarrow> bool" where
  "href_is_person x = (case x of None \<Rightarrow> False | Some s \<Rightarrow> s \<noteq> [] \<and> str_in ''/person/'' s)"

definition cast_step :: "page \<Rightarrow> pydict \<Rightarrow> pydict" where
  "cast_step pg metadata =
     (let cast_elements = filter (\<lambda>a. href_is_person (link_href a)) (a_elements pg)
      in if cast_elements \<noteq> []
         then dict_set metadata ''cast''
                (PList (map (\<lambda>a. PStr (strip (link_text a))) (take 5 cast_elements)))
         else metadata)"

text \<open>Lines 139 to 144: the description. The parser applies the function given for
  \<^verbatim>\<open>class_\<close> to each class of the element and to the whole attribute; as the word looked for
  has no blank, that is the test on the whole attribute.\<close>

definition class_is_description :: "string option \<Rightarrow> bool" where
  "class_is_description x =
     (case x of None \<Rightarrow> False | Some s \<Rightarrow> s \<noteq> [] \<and> str_in ''description'' (lower s))"

definition string_is_long :: "string option \<Rightarrow> bool" where
  "string_is_long x = (case x of None \<Rightarrow> False | Some s \<Rightarrow> s \<noteq> [] \<and> length s > 50)"

definition find_description :: "page \<Rightarrow> element option" where
  "find_description pg =
     (case find (\<lambda>e. class_is_description (el_class e)) (div_elements pg) of
        Some e \<Rightarrow> Some e
      | None \<Rightarrow> find (\<lambda>e. string_is_long (el_string e)) (p_elements pg))"

definition description_step :: "page \<Rightarrow> pydict \<Rightarrow> pydict" where
  "description_step pg metadata =
     (case find_description pg of
        None \<Rightarrow> metadata
      | Some description_elem \<Rightarrow>
          dict_set metadata ''description'' (PStr (take 500 (strip (el_text description_elem)))))"

text \<open>The body of the \<^verbatim>\<open>try\<close> after the fetch, in the order of the source, and the function:
  any exception, of the fetch or of the body, is caught and \<open>None\<close> is returned.\<close>

definition parse_page :: "page \<Rightarrow> string \<Rightarrow> pydict result" where
  "parse_page pg lddb_url =
     (case year_step pg (h1_step pg (title_step pg (initial_metadata lddb_url))) of
        Inl e \<Rightarrow> Inl e
      | Inr md1 \<Rightarrow>
          (case cover_step pg md1 of
             Inl e \<Rightarrow> Inl e
           | Inr md2 \<Rightarrow>
               (case dt_loop md2 (dt_elements pg) of
                  Inl e \<Rightarrow> Inl e
                | Inr md3 \<Rightarrow> Inr (description_step pg (cast_step pg md3)))))"

definition scrape_lddb_metadata :: "world \<Rightarrow> string \<Rightarrow> pydict option" where
  "scrape_lddb_metadata w lddb_url =
     (case lddb_get w lddb_url of
        Failed f \<Rightarrow> None
      | Fetched pg \<Rightarrow>
          (case parse_page pg lddb_url of
             Inl e \<Rightarrow> None
           | Inr metadata \<Rightarrow> Some metadata))"

section \<open>Enricher: \<^verbatim>\<open>enhance_with_tmdb\<close>\<close>

text \<open>Line 157: the first of the two environment variables that is set and not empty.\<close>

definition tmdb_api_key :: "world \<Rightarrow> string option" where
  "tmdb_api_key w =
     (case env_TMDB_API_KEY w of
        None \<Rightarrow> env_VITE_TMDB_API_KEY w
      | Some k \<Rightarrow> if k \<noteq> [] then Some k else env_VITE_TMDB_API_KEY w)"

text \<open>Lines 176 to 184: the best match. \<^verbatim>\<open>int(result['release_date'][:4])\<close> is a ValueError
  on a string whose first four characters are no integer and a TypeError on a value that is
  not a string; \<^verbatim>\<open>result_year == year\<close> compares an integer with the year given (Python
  counts \<^verbatim>\<open>True\<close> as 1).\<close>

fun int_of_prefix :: "pyval \<Rightarrow> int result" where
  "int_of_prefix (PStr s) = (case py_int (take 4 s) of None \<Rightarrow> Inl ValueError | Some n \<Rightarrow> Inr n)"
| "int_of_prefix v = Inl TypeError"

definition int_eq :: "int \<Rightarrow> pyval \<Rightarrow> bool" where
  "int_eq n v = (v = PInt n \<or> (v = PBool True \<and> n = 1) \<or> (v = PBool False \<and> n = 0))"

fun year_scan :: "pyval list \<Rightarrow> pyval \<Rightarrow> pyval \<Rightarrow> pyval result" where
  "year_scan [] year best_match = Inr best_match"
| "year_scan (r # rest) year best_match =
     (case py_get r ''release_date'' of
        Inl e \<Rightarrow> Inl e
      | Inr d \<Rightarrow>
          if truthy d then
            (case int_of_prefix d of
               Inl e \<Rightarrow> Inl e
             | Inr result_year \<Rightarrow>
                 if int_eq result_year year then Inr r else year_scan rest year best_match)
          else year_scan rest year best_match)"

definition select_best_match :: "pyval \<Rightarrow> pyval \<Rightarrow> pyval result" where
  "select_best_match results year =
     (case py_first results of
        Inl e \<Rightarrow> Inl e
      | Inr best_match \<Rightarrow>
          if truthy year then
            (case py_len results of
               Inl e \<Rightarrow> Inl e
             | Inr n \<Rightarrow>
                 if n > 1 then
                   (case py_iter results of
                      Inl e \<Rightarrow> Inl e
                    | Inr rs \<Rightarrow> year_scan rs year best_match)
                 else Inr best_match)
          else Inr best_match)"

text \<open>Lines 195 to 211: the enrichment record. A formatted string takes a string as it
  is and any other value through \<^verbatim>\<open>str()\<close>.\<close>

definition py_format :: "world \<Rightarrow> pyval \<Rightarrow> string" where
  "py_format w v = (case v of PStr s \<Rightarrow> s | _ \<Rightarrow> py_str w v)"

fun names_of :: "pyval list \<Rightarrow> pyval list result" where
  "names_of [] = Inr []"
| "names_of (g # rest) =
     (case py_item g ''name'' of
        Inl e \<Rightarrow> Inl e
      | Inr n \<Rightarrow> (case names_of rest of Inl e \<Rightarrow> Inl e | Inr ns \<Rightarrow> Inr (n # ns)))"

fun first_director :: "pyval list \<Rightarrow> pyval result" where
  "first_director [] = Inr PNone"
| "first_director (c # rest) =
     (case py_item c ''job'' of
        Inl e \<Rightarrow> Inl e
      | Inr job \<Rightarrow> if job = PStr ''Director'' then py_item c ''name'' else first_director rest)"

fun py_slice10 :: "pyval \<Rightarrow> pyval result" where
  "py_slice10 (PList xs) = Inr (PList (take 10 xs))"
| "py_slice10 (PStr s) = Inr (PStr (take 10 s))"
| "py_slice10 v = Inl TypeError"

definition base_record :: "world \<Rightarrow> pyval \<Rightarrow> pyval \<Rightarrow> pydict result" where
  "base_record w movie_id details =
     (case py_get_default details ''overview'' (PStr []) of
        Inl e \<Rightarrow> Inl e
      | Inr overview \<Rightarrow>
     (case py_get details ''poster_path'' of
        Inl e \<Rightarrow> Inl e
      | Inr poster_path \<Rightarrow>
     (case py_get details ''runtime'' of
        Inl e \<Rightarrow> Inl e
      | Inr runtime \<Rightarrow>
     (case py_get_default details ''genres'' (PList []) of
        Inl e \<Rightarrow> Inl e
      | Inr genres \<Rightarrow>
     (case py_iter genres of
        Inl e \<Rightarrow> Inl e
      | Inr gs \<Rightarrow>
     (case names_of gs of
        Inl e \<Rightarrow> Inl e
      | Inr genre_names \<Rightarrow>
          Inr [(''tmdbId'', movie_id),
               (''description'', overview),
               (''posterUrl'',
                  if truthy poster_path
                  then PStr (''https://image.tmdb.org/t/p/w500'' @ py_format w poster_path)
                  else PNone),
               (''runtime'', runtime),
               (''genres'', PList genre_names)]))))))"

definition add_director :: "pyval \<Rightarrow> pydict \<Rightarrow> pydict result" where
  "add_director credits enhanced =
     (case py_get credits ''crew'' of
        Inl e \<Rightarrow> Inl e
      | Inr crew \<Rightarrow>
          if truthy crew then
            (case py_iter crew of
               Inl e \<Rightarrow> Inl e
             | Inr cs \<Rightarrow>
                 (case first_director cs of
                    Inl e \<Rightarrow> Inl e
                  | Inr director \<Rightarrow>
                      if truthy director then Inr (dict_set enhanced ''director'' director)
                      else Inr enhanced))
          else Inr enhanced)"

definition add_actors :: "pyval \<Rightarrow> pydict \<Rightarrow> pydict result" where
  "add_actors credits enhanced =
     (case py_get credits ''cast'' of
        Inl e \<Rightarrow> Inl e
      | Inr cast \<Rightarrow>
          if truthy cast then
            (case py_slice10 cast of
               Inl e \<Rightarrow> Inl e
             | Inr first10 \<Rightarrow>
                 (case py_iter first10 of
                    Inl e \<Rightarrow> Inl e
                  | Inr cs \<Rightarrow>
                      (case names_of cs of
                         Inl e \<Rightarrow> Inl e
                       | Inr ns \<Rightarrow> Inr (dict_set enhanced ''actors'' (PList ns)))))
          else Inr enhanced)"

definition build_enhanced :: "world \<Rightarrow> pyval \<Rightarrow> pyval \<Rightarrow> pydict result" where
  "build_enhanced w movie_id details =
     (case base_record w movie_id details of
        Inl e \<Rightarrow> Inl e
      | Inr enhanced \<Rightarrow>
          (case py_get_default details ''credits'' (PDict []) of
             Inl e \<Rightarrow> Inl e
           | Inr credits \<Rightarrow>
               (case add_director credits enhanced of
                  Inl e \<Rightarrow> Inl e
                | Inr enhanced' \<Rightarrow> add_actors credits enhanced')))"

text \<open>Lines 187 to 214: the details of the best match and the record made of them.\<close>

definition enrich_match :: "world \<Rightarrow> string \<Rightarrow> pyval \<Rightarrow> pydict result" where
  "enrich_match w key best_match =
     (case py_item best_match ''id'' of
        Inl e \<Rightarrow> Inl e
      | Inr movie_id \<Rightarrow>
          (case tmdb_details_get w key movie_id of
             Failed f \<Rightarrow> Inl (OtherError ''request failed'')
           | Fetched details \<Rightarrow> build_enhanced w movie_id details))"

text \<open>Lines 171 to 214, after the search response has arrived: \<open>Inr None\<close> is the
  \<^verbatim>\<open>return None\<close> of line 173, \<open>Inl\<close> an exception.\<close>

definition enrich :: "world \<Rightarrow> string \<Rightarrow> pyval \<Rightarrow> pyval \<Rightarrow> pydict option result" where
  "enrich w key search_data year =
     (case py_get search_data ''results'' of
        Inl e \<Rightarrow> Inl e
      | Inr results \<Rightarrow>
          if \<not> truthy results then Inr None
          else
            (case select_best_match results year of
               Inl e \<Rightarrow> Inl e
             | Inr best_match \<Rightarrow>
                 (case enrich_match w key best_match of
                    Inl e \<Rightarrow> Inl e
                  | Inr enhanced \<Rightarrow> Inr (Some enhanced))))"

text \<open>The function. \<^verbatim>\<open>quote(title)\<close> raises a TypeError on a title that is not a string;
  like every exception, it ends in \<open>None\<close>.\<close>

definition enhance_with_tmdb :: "world \<Rightarrow> pyval \<Rightarrow> pyval \<Rightarrow> pydict option" where
  "enhance_with_tmdb w title year =
     (case tmdb_api_key w of
        None \<Rightarrow> None
      | Some key \<Rightarrow>
          if key = [] then None
          else
            (case title of
               PStr t \<Rightarrow>
                 (case tmdb_search_get w key t (if truthy year then year else PNone) of
                    Failed f \<Rightarrow> None
                  | Fetched search_data \<Rightarrow>
                      (case enrich w key search_data year of
                         Inl e \<Rightarrow> None
                       | Inr r \<Rightarrow> r))
             | _ \<Rightarrow> None))"

section \<open>The lookup endpoint: \<^verbatim>\<open>lookup_catalog\<close>\<close>

text \<open>
  A request is what \<^verbatim>\<open>request.get_json()\<close> makes of it: the decoded body, or an exception of
  the framework. A response is the HTTP status and the JSON object sent. Next to the
  response the model returns the calls of the three stages, in order and with their
  arguments.
\<close>

datatype request = GetJsonRaises string | JsonBody pyval

datatype stage_call =
    LocatorCall string
  | ExtractorCall string
  | EnricherCall pyval pyval

type_synonym response = "nat \<times> pydict"

text \<open>Line 225: \<^verbatim>\<open>data.get("catalog_number", "").strip()\<close>.\<close>

definition catalog_number_of :: "pyval \<Rightarrow> string result" where
  "catalog_number_of data =
     (case py_get_default data ''catalog_number'' (PStr []) of
        Inl e \<Rightarrow> Inl e
      | Inr v \<Rightarrow>
          (case v of
             PStr s \<Rightarrow> Inr (strip s)
           | _ \<Rightarrow> Inl (AttributeError (type_name v) ''strip'')))"

text \<open>Lines 254 to 263: the merge of the enrichment record into the metadata.\<close>

definition merge_enhanced :: "pydict \<Rightarrow> pydict \<Rightarrow> pydict" where
  "merge_enhanced metadata enhanced_metadata =
     dict_update metadata
       [(''description'',
           dict_get_default enhanced_metadata ''description'' (dict_get metadata ''description'')),
        (''posterUrl'',
           py_or (dict_get enhanced_metadata ''posterUrl'') (dict_get metadata ''coverUrl'')),
        (''tmdbId'', dict_get enhanced_metadata ''tmdbId''),
        (''director'',
           dict_get_default enhanced_metadata ''director'' (dict_get metadata ''director'')),
        (''actors'',
           dict_get_default enhanced_metadata ''actors''
             (dict_get_default metadata ''cast'' (PList []))),
        (''genres'',
           dict_get_default enhanced_metadata ''genres''
             (dict_get_default metadata ''genres'' (PList []))),
        (''runtime'',
           dict_get_default enhanced_metadata ''runtime'' (dict_get metadata ''runtime''))]"

text \<open>Lines 249 to 266: the enrichment of the metadata, with the calls it makes.\<close>

definition enhance_stage :: "world \<Rightarrow> pydict \<Rightarrow> pydict \<times> stage_call list" where
  "enhance_stage w metadata =
     (if truthy (dict_get metadata ''title'') \<and> truthy (dict_get metadata ''year'') then
        (case enhance_with_tmdb w (dict_get metadata ''title'') (dict_get metadata ''year'') of
           None \<Rightarrow> (metadata, [EnricherCall (dict_get metadata ''title'') (dict_get metadata ''year'')])
         | Some enhanced_metadata \<Rightarrow>
             (if enhanced_metadata \<noteq> [] then merge_enhanced metadata enhanced_metadata else metadata,
              [EnricherCall (dict_get metadata ''title'') (dict_get metadata ''year'')]))
      else (metadata, []))"

definition not_found_body :: "string \<Rightarrow> pydict" where
  "not_found_body catalog_number =
     [(''status'', PStr ''not_found''),
      (''message'', PStr (''No LDDB results found for catalog number: '' @ catalog_number))]"

definition extract_error_body :: pydict where
  "extract_error_body =
     [(''status'', PStr ''error''),
      (''message'', PStr ''Found LDDB page but could not extract metadata'')]"

definition success_body :: "pydict \<Rightarrow> string \<Rightarrow> pydict" where
  "success_body metadata catalog_number =
     [(''status'', PStr ''success''),
      (''data'', PDict metadata),
      (''catalog_number'', PStr catalog_number)]"

text \<open>Lines 230 to 272: the pipeline for a catalog number that is not empty.\<close>

definition run_pipeline :: "world \<Rightarrow> string \<Rightarrow> response \<times> stage_call list" where
  "run_pipeline w catalog_number =
     (case search_lddb_catalog_number w catalog_number of
        None \<Rightarrow> ((200, not_found_body catalog_number), [LocatorCall catalog_number])
      | Some lddb_url \<Rightarrow>
          if lddb_url = [] then ((200, not_found_body catalog_number), [LocatorCall catalog_number])
          else
            (case scrape_lddb_metadata w lddb_url of
               None \<Rightarrow>
                 ((200, extract_error_body), [LocatorCall catalog_number, ExtractorCall lddb_url])
             | Some metadata \<Rightarrow>
                 if metadata = [] then
                   ((200, extract_error_body), [LocatorCall catalog_number, ExtractorCall lddb_url])
                 else
                   (case enhance_stage w metadata of
                      (metadata', calls) \<Rightarrow>
                        ((200, success_body metadata' catalog_number),
                         [LocatorCall catalog_number, ExtractorCall lddb_url] @ calls))))"

definition lookup_catalog :: "world \<Rightarrow> request \<Rightarrow> response \<times> stage_call list" where
  "lookup_catalog w req =
     (case (case req of
              GetJsonRaises msg \<Rightarrow> Inl (OtherError msg)
            | JsonBody data \<Rightarrow> catalog_number_of data) of
        Inl e \<Rightarrow> ((500, [(''error'', PStr (exn_str e))]), [])
      | Inr catalog_number \<Rightarrow>
          if catalog_number = [] then ((400, [(''error'', PStr ''Missing catalog number'')]), [])
          else run_pipeline w catalog_number)"

section \<open>Notions used in the statements\<close>

text \<open>An anchor matches when its target holds the domain and the path marker (line 35);
  it yields a candidate when it is, besides, of one of the two accepted forms (lines 37
  and 40).\<close>

definition href_matches :: "string \<Rightarrow> bool" where
  "href_matches href = (str_in ''lddb.com'' href \<and> str_in ''/laserdisc/'' href)"

definition href_usable :: "string \<Rightarrow> bool" where
  "href_usable href = (startswith href ''/url?q='' \<or> startswith href ''https://www.lddb.com'')"

text \<open>The key of the metadata that a term/value pair is dispatched to by the chain of
  lines 122 to 130: the first of the four keyword groups that the label holds decides.\<close>

definition dt_target :: "string \<times> string option \<Rightarrow> string option" where
  "dt_target pair =
     (case snd pair of
        None \<Rightarrow> None
      | Some dd_text \<Rightarrow>
          (let label = lower (strip (fst pair))
           in if str_in ''director'' label then Some ''director''
              else if str_in ''genre'' label \<or> str_in ''category'' label then Some ''genres''
              else if str_in ''runtime'' label \<or> str_in ''duration'' label then Some ''runtime''
              else if str_in ''catalog'' label \<or> str_in ''number'' label then Some ''catalogNumber''
              else None))"



text \<open>A field of the Extractor's output for a page address; \<open>None\<close> when the Extractor
  returns its failure signal.\<close>

definition scraped_field :: "world \<Rightarrow> string \<Rightarrow> string \<Rightarrow> pyval option" where
  "scraped_field w lddb_url k =
     (case scrape_lddb_metadata w lddb_url of
        None \<Rightarrow> None
      | Some metadata \<Rightarrow> Some (dict_get metadata k))"

section \<open>Example worlds\<close>

text \<open>A world in which every request fails for want of a connection and no API key is
  set, and one in which the search engine answers with status 429. The examples use targets
  without a percent sign, which \<^verbatim>\<open>unquote\<close> leaves as they are.\<close>

definition offline_world :: world where
  "offline_world =
     \<lparr>unquote = (\<lambda>s. s), py_str = (\<lambda>v. []),
      env_TMDB_API_KEY = None, env_VITE_TMDB_API_KEY = None,
      google_get = (\<lambda>cn. Failed ConnectionFailed),
      lddb_get = (\<lambda>url. Failed ConnectionFailed),
      tmdb_search_get = (\<lambda>key title year. Failed ConnectionFailed),
      tmdb_details_get = (\<lambda>key movie_id. Failed ConnectionFailed)\<rparr>"

definition throttled_world :: world where
  "throttled_world = offline_world\<lparr>google_get := (\<lambda>cn. Failed (BadStatus 429))\<rparr>"

text \<open>A search page with three anchors: two that do not match and one that matches but is
  of neither accepted form.\<close>

definition no_match_world :: world where
  "no_match_world =
     offline_world\<lparr>google_get := (\<lambda>cn. Fetched
        [''/search?q=PILF-1557&start=10'',
         ''https://www.lddb.com/search.php?search=PILF-1557'',
         ''http://mirror.example/lddb.com/laserdisc/00001''])\<rparr>"

text \<open>A redirect link with a second \<^verbatim>\<open>/url?q=\<close> before the first ampersand.\<close>

definition nested_redirect_href :: string where
  "nested_redirect_href = ''/url?q=https://www.lddb.com/laserdisc/1/url?q=2&sa=U''"

text \<open>The page of a disc, its address, and a world in which the search page links to that
  address, the page given is served there, an API key is set and the metadata API knows one
  film, released in 1979, whose details carry no runtime (\<^verbatim>\<open>"runtime": null\<close>).\<close>

definition blank_page :: page where
  "blank_page =
     \<lparr>title_element = None, h1_element = None, soup_str = ''<html></html>'',
      img_elements = [], dt_elements = [], a_elements = [], div_elements = [],
      p_elements = []\<rparr>"

definition alien_url :: string where
  "alien_url = ''https://www.lddb.com/laserdisc/00123/1090-85/Alien''"

definition alien_page :: page where
  "alien_page =
     blank_page\<lparr>
       title_element := Some ''Alien [LaserDisc]'',
       soup_str := ''<html><head><title>Alien [LaserDisc]</title></head><body>''
          @ ''<p>Released (1979)</p><dl><dt>Runtime</dt><dd>117 minutes</dd></dl></body></html>'',
       dt_elements := [(''Runtime'', Some ''117 minutes'')],
       p_elements := [\<lparr>el_class = None, el_string = Some ''Released (1979)'',
                        el_text = ''Released (1979)''\<rparr>]\<rparr>"

definition alien_search :: pyval where
  "alien_search =
     PDict [(''page'', PInt 1),
            (''results'',
               PList [PDict [(''id'', PInt 348), (''title'', PStr ''Alien''),
                             (''release_date'', PStr ''1979-05-25'')]])]"

definition alien_details :: pyval where
  "alien_details =
     PDict [(''id'', PInt 348),
            (''overview'', PStr ''A commercial crew is awakened by a distress call.''),
            (''poster_path'', PStr ''/alien.jpg''),
            (''runtime'', PNone),
            (''genres'', PList [PDict [(''id'', PInt 27), (''name'', PStr ''Horror'')]]),
            (''credits'',
               PDict [(''cast'', PList [PDict [(''name'', PStr ''Sigourney Weaver'')]]),
                      (''crew'',
                         PList [PDict [(''job'', PStr ''Producer''),
                                       (''name'', PStr ''Gordon Carroll'')],
                                PDict [(''job'', PStr ''Director''),
                                       (''name'', PStr ''Ridley Scott'')]])])]"

definition serving :: "page \<Rightarrow> world" where
  "serving pg =
     offline_world\<lparr>
       env_TMDB_API_KEY := Some ''key'',
       google_get := (\<lambda>cn. Fetched [''/search?q=1090-85'', alien_url]),
       lddb_get := (\<lambda>url. if url = alien_url then Fetched pg else Failed (BadStatus 404)),
       tmdb_search_get := (\<lambda>key title year.
          if title = ''Alien'' \<and> year = PInt 1979 then Fetched alien_search
          else Failed (BadStatus 404)),
       tmdb_details_get := (\<lambda>key movie_id.
          if movie_id = PInt 348 then Fetched alien_details else Failed (BadStatus 404))\<rparr>"

definition alien_request :: request where
  "alien_request = JsonBody (PDict [(''catalog_number'', PStr ''1090-85'')])"

text \<open>The record the Extractor makes of that page, and the record the Enricher makes of
  the film.\<close>

definition alien_extracted :: pydict where
  "alien_extracted =
     [(''title'', PStr ''Alien''), (''year'', PInt 1979), (''runtime'', PInt 117),
      (''format'', PStr ''LaserDisc''), (''genres'', PList []), (''coverUrl'', PNone),
      (''director'', PNone), (''cast'', PList []), (''description'', PNone),
      (''catalogNumber'', PNone), (''sourceUrl'', PStr alien_url)]"

definition alien_enrichment :: pydict where
  "alien_enrichment =
     [(''tmdbId'', PInt 348),
      (''description'', PStr ''A commercial crew is awakened by a distress call.''),
      (''posterUrl'', PStr ''https://image.tmdb.org/t/p/w500/alien.jpg''),
      (''runtime'', PNone),
      (''genres'', PList [PStr ''Horror'']),
      (''director'', PStr ''Ridley Scott''),
      (''actors'', PList [PStr ''Sigourney Weaver''])]"

text \<open>Pages that differ from it in the title: two bracketed groups; a line feed inside
  the name; a separator and no bracket; an empty title element; and no title element, once
  with a first heading and once without.\<close>

definition two_groups_page :: page where
  "two_groups_page =
     alien_page\<lparr>
       title_element := Some ''Aliens [Special Edition] [LaserDisc]'',
       soup_str := ''<html><head><title>Aliens [Special Edition] [LaserDisc]</title></head>''
          @ ''<body><p>Released (1986)</p></body></html>''\<rparr>"

definition two_lines_page :: page where
  "two_lines_page =
     alien_page\<lparr>
       title_element := Some (''Alien'' @ [CHR 0x0A] @ ''Resurrection [LaserDisc]''),
       soup_str := ''<html><head><title>Alien'' @ [CHR 0x0A] @ ''Resurrection [LaserDisc]</title>''
          @ ''</head><body><p>Released (1997)</p></body></html>''\<rparr>"

definition dash_page :: page where
  "dash_page =
     blank_page\<lparr>
       title_element := Some '' Blade Runner - LaserDisc Database '',
       soup_str := ''<html><head><title> Blade Runner - LaserDisc Database </title></head>''
          @ ''<body></body></html>''\<rparr>"

definition empty_title_page :: page where
  "empty_title_page =
     blank_page\<lparr>
       title_element := Some [],
       soup_str := ''<html><head><title></title></head><body>Heat (1995)</body></html>''\<rparr>"

definition heading_page :: page where
  "heading_page =
     blank_page\<lparr>
       h1_element := Some '' Brazil '',
       soup_str := ''<html><body><h1> Brazil </h1></body></html>''\<rparr>"

definition bare_page :: page where
  "bare_page = blank_page\<lparr>soup_str := ''<html><body>Tron (1982)</body></html>''\<rparr>"

text \<open>The page of the disc with an image whose width is a percentage, and with a
  description of 600 characters.\<close>

definition percent_width_page :: page where
  "percent_width_page =
     alien_page\<lparr>img_elements :=
        [\<lparr>img_src = Some ''/images/logo.gif'', img_width = None\<rparr>,
         \<lparr>img_src = Some ''/images/front.jpg'', img_width = Some ''50%''\<rparr>]\<rparr>"

definition long_text :: string where
  "long_text = replicate 600 (CHR ''a'')"

definition long_description_page :: page where
  "long_description_page =
     alien_page\<lparr>div_elements :=
        [\<lparr>el_class = Some ''movie-description'', el_string = Some long_text,
          el_text = long_text\<rparr>]\<rparr>"

text \<open>The page of the disc with three definition terms, two of them for the runtime.\<close>

definition two_runtimes_page :: page where
  "two_runtimes_page =
     alien_page\<lparr>
       soup_str := ''<html><head><title>Alien [LaserDisc]</title></head><body>''
          @ ''<p>Released (1979)</p><dl><dt>Runtime</dt><dd>95 min</dd>''
          @ ''<dt>Runtime</dt><dd>120 minutes</dd><dt>Format</dt><dd>CLV</dd></dl></body></html>'',
       dt_elements := [(''Runtime'', Some ''95 min''), (''Runtime'', Some ''120 minutes''),
                       (''Format'', Some ''CLV'')]\<rparr>"






section \<open>Evaluation rules for the examples\<close>

lemmas string_eval = strip_def is_space_def is_digit_def startswith_def lower_def lower_char_def
  upper_chars_def lower_chars_def py_split_def title_match_def bracket_follows_def
  digits_search_def py_int_def int_strip_def is_int_space_def max_str_digits_def parse_digits_def
  digits_val_def digit_val_def

lemmas dict_eval = dict_get_def dict_get_default_def dict_set_def dict_update_def py_or_def

lemmas extractor_eval = scrape_lddb_metadata_def parse_page_def initial_metadata_def
  title_step_def title_from_text_def h1_step_def year_step_def cover_step_def find_cover_img_def
  src_is_cover_def width_over_100_def dt_step_def cast_step_def href_is_person_def
  description_step_def find_description_def class_is_description_def string_is_long_def

lemmas enricher_eval = enhance_with_tmdb_def tmdb_api_key_def enrich_def enrich_match_def
  select_best_match_def
  int_eq_def build_enhanced_def base_record_def add_director_def add_actors_def py_format_def

section \<open>Auxiliary lemmas on dictionaries and strings\<close>

lemma map_of_dict_set:
  "map_of (dict_set d k v) k' = (if k' = k then Some v else map_of d k')"
  by (simp add: dict_set_def update_conv')

lemma dict_get_dict_set:
  "dict_get (dict_set d k v) k' = (if k' = k then v else dict_get d k')"
  by (simp add: dict_get_def map_of_dict_set)

lemma digit_not_space: "is_digit c \<Longrightarrow> \<not> is_space c"
  by (auto simp: is_digit_def is_space_def)

lemma strip_no_space:
  assumes "s \<noteq> []" and "\<not> is_space (hd s)" and "\<not> is_space (last s)"
  shows "strip s = s"
proof -
  have a: "dropWhile is_space s = s"
    using assms(1,2) by (cases s) auto
  have "rev s \<noteq> []" and "hd (rev s) = last s"
    using assms(1) by (simp_all add: hd_rev)
  then have "\<not> is_space (hd (rev s))"
    using assms(3) by simp
  then have b: "dropWhile is_space (rev s) = rev s"
    using \<open>rev s \<noteq> []\<close> by (cases "rev s") simp_all
  show ?thesis by (simp add: strip_def a b)
qed

lemma strip_hd:
  "strip s \<noteq> [] \<Longrightarrow> \<not> is_space (hd (strip s))"
proof -
  assume ne: "strip s \<noteq> []"
  let ?d = "dropWhile is_space s"
  have d: "?d \<noteq> []"
  proof
    assume a: "?d = []"
    have "strip s = []" unfolding strip_def a by simp
    with ne show False by simp
  qed
  then have h: "\<not> is_space (hd ?d)" by (metis hd_dropWhile)
  have "strip s = rev (dropWhile is_space (rev ?d))" by (simp add: strip_def)
  moreover have "?d = rev (dropWhile is_space (rev ?d)) @ rev (takeWhile is_space (rev ?d))"
    by (metis rev_append rev_rev_ident takeWhile_dropWhile_id)
  ultimately have "?d = strip s @ rev (takeWhile is_space (rev ?d))" by simp
  then have "hd ?d = hd (strip s)" using ne by (metis hd_append2)
  with h show ?thesis by simp
qed

lemma strip_last:
  "strip s \<noteq> [] \<Longrightarrow> \<not> is_space (last (strip s))"
proof -
  assume ne: "strip s \<noteq> []"
  let ?r = "dropWhile is_space (rev (dropWhile is_space s))"
  have "?r \<noteq> []" using ne by (simp add: strip_def)
  then have "\<not> is_space (hd ?r)" by (metis hd_dropWhile)
  moreover have "last (strip s) = hd ?r"
    using \<open>?r \<noteq> []\<close> by (simp add: strip_def last_rev)
  ultimately show ?thesis by simp
qed

lemma strip_strip: "strip (strip s) = strip s"
proof (cases "strip s = []")
  case True
  moreover have "strip [] = []" by (simp add: strip_def)
  ultimately show ?thesis by simp
next
  case False
  then show ?thesis by (intro strip_no_space strip_hd strip_last)
qed

lemma rstrip_decomp:
  assumes "pre \<noteq> []" and "\<not> is_space (hd pre)"
  shows "\<exists>ws. pre = strip pre @ ws \<and> list_all is_space ws \<and> strip pre \<noteq> []"
proof -
  have d: "dropWhile is_space pre = pre" using assms by (cases pre) auto
  then have s: "strip pre = rev (dropWhile is_space (rev pre))" by (simp add: strip_def)
  have "pre = rev (dropWhile is_space (rev pre)) @ rev (takeWhile is_space (rev pre))"
    by (metis rev_append rev_rev_ident takeWhile_dropWhile_id)
  then have p: "pre = strip pre @ rev (takeWhile is_space (rev pre))" using s by simp
  have w: "list_all is_space (rev (takeWhile is_space (rev pre)))"
    by (auto simp: list_all_iff dest: set_takeWhileD)
  have "hd pre \<in> set (rev pre)" using assms(1) by simp
  then have "dropWhile is_space (rev pre) \<noteq> []"
    using assms(2) by (auto simp: dropWhile_eq_Nil_conv)
  then have "strip pre \<noteq> []" using s by simp
  with p w show ?thesis by blast
qed

lemma valid_digits_all:
  "ds \<noteq> [] \<Longrightarrow> list_all is_digit ds \<Longrightarrow> valid_digits ds"
  by (induction ds rule: valid_digits.induct) (auto simp: is_digit_def)

lemma filter_underscore_digits:
  "list_all is_digit ds \<Longrightarrow> filter (\<lambda>c. c \<noteq> CHR ''_'') ds = ds"
  by (induction ds) (auto simp: is_digit_def)

lemma int_strip_no_space:
  assumes "s \<noteq> []" and "\<not> is_int_space (hd s)" and "\<not> is_int_space (last s)"
  shows "int_strip s = s"
proof -
  have a: "dropWhile is_int_space s = s"
    using assms(1,2) by (cases s) auto
  have "rev s \<noteq> []" and "hd (rev s) = last s"
    using assms(1) by (simp_all add: hd_rev)
  then have "\<not> is_int_space (hd (rev s))"
    using assms(3) by simp
  then have b: "dropWhile is_int_space (rev s) = rev s"
    using \<open>rev s \<noteq> []\<close> by (cases "rev s") simp_all
  show ?thesis by (simp add: int_strip_def a b)
qed

lemma digit_not_int_space: "is_digit c \<Longrightarrow> \<not> is_int_space c"
  by (auto simp: is_digit_def is_int_space_def)

lemma py_int_digits:
  assumes "ds \<noteq> []" and "list_all is_digit ds"
  shows "py_int ds = (if length ds \<le> max_str_digits then Some (digits_val ds) else None)"
proof -
  obtain c cs where ds: "ds = c # cs" using assms(1) by (cases ds) auto
  have "is_digit (hd ds)" and "is_digit (last ds)"
    using assms by (auto simp: list_all_iff)
  then have s: "int_strip ds = ds"
    using assms(1) by (intro int_strip_no_space) (auto dest: digit_not_int_space)
  have c: "c \<noteq> CHR ''-''" "c \<noteq> CHR ''+''"
    using assms(2) ds by (auto simp: is_digit_def)
  have "parse_digits ds = (if length ds \<le> max_str_digits then Some (digits_val ds) else None)"
    using assms by (simp add: parse_digits_def valid_digits_all filter_underscore_digits)
  then show ?thesis
    using s c ds by (simp add: py_int_def)
qed

text \<open>The no-break space is white space for \<^verbatim>\<open>int()\<close> and the file separator is not, although
  \<^verbatim>\<open>strip()\<close> removes both; and 4300 digits are read, 4301 are refused.\<close>

lemma py_int_white_space:
  "py_int (CHR 0xA0 # ''199'') = Some 199 \<and> py_int (CHR 0x1C # ''199'') = None
   \<and> strip (CHR 0xA0 # ''199'') = ''199'' \<and> strip (CHR 0x1C # ''199'') = ''199''"
  by (simp add: string_eval)

lemma py_int_digit_limit:
  "py_int (replicate 4300 (CHR ''1'')) = Some (digits_val (replicate 4300 (CHR ''1'')))
   \<and> py_int (replicate 4301 (CHR ''1'')) = None"
  by (simp add: py_int_digits max_str_digits_def list_all_iff is_digit_def)

lemma year_search_digits:
  "year_search s = Some g \<Longrightarrow> g \<noteq> [] \<and> list_all is_digit g \<and> length g = 4"
  by (induction s) (auto split: if_splits)

lemma digits_search_digits:
  "digits_search s = Some g \<Longrightarrow> g \<noteq> [] \<and> list_all is_digit g"
  by (auto simp: digits_search_def list_all_iff split: list.splits dest: set_takeWhileD)
    (metis dropWhile_eq_Nil_conv hd_dropWhile list.sel(1) list.distinct(1))

lemma digits_search_first:
  assumes "list_all (\<lambda>c. \<not> is_digit c) pre" and "ds \<noteq> []" and "list_all is_digit ds"
    and "post = [] \<or> \<not> is_digit (hd post)"
  shows "digits_search (pre @ ds @ post) = Some ds"
proof -
  obtain c cs where ds: "ds = c # cs" using assms(2) by (cases ds) auto
  have d: "dropWhile (\<lambda>c. \<not> is_digit c) (pre @ ds @ post) = ds @ post"
    using assms(1,3) ds by (simp add: dropWhile_append3 list_all_iff dropWhile_append)
  have t: "takeWhile is_digit (ds @ post) = ds"
    using assms(3,4) by (cases post) (auto simp: takeWhile_append list_all_iff)
  show ?thesis
    using d t ds by (simp add: digits_search_def)
qed

lemma hd_py_split_from_char:
  "hd (py_split_from [x] cur s) = cur @ takeWhile (\<lambda>c. c \<noteq> x) s"
  by (induction s arbitrary: cur) (auto simp: startswith_def)

lemma py_split_from_absent:
  "\<not> str_in sep s \<Longrightarrow> py_split_from sep cur s = [cur @ s]"
  by (induction s arbitrary: cur) auto

lemma startswith_shorter:
  assumes "a \<noteq> []" and "sep \<noteq> []" and "startswith (a @ sep @ b) sep"
  shows "startswith (a @ butlast sep) sep"
proof -
  have "a @ sep @ b = (a @ butlast sep) @ (last sep # b)"
    using assms(2) by simp
  moreover have "length sep \<le> length (a @ butlast sep)"
    using assms(1) by (cases a) auto
  ultimately have "take (length sep) (a @ sep @ b) = take (length sep) (a @ butlast sep)"
    by (metis append_eq_conv_conj take_all_iff take_append append_Nil2 diff_is_0_eq' take_0)
  then show ?thesis using assms(3) by (simp add: startswith_def)
qed

lemma str_in_startswith: "startswith s p \<Longrightarrow> str_in p s"
  by (cases s) (auto simp: startswith_def)

lemma hd_py_split_from_first:
  assumes "sep \<noteq> []" and "\<not> str_in sep (a @ butlast sep)"
  shows "hd (py_split_from sep cur (a @ sep @ b)) = cur @ a"
  using assms(2)
proof (induction a arbitrary: cur)
  case Nil
  have "startswith (sep @ b) sep" by (simp add: startswith_def)
  then show ?case using assms(1) by (cases sep) auto
next
  case (Cons c a)
  have "\<not> startswith ((c # a) @ butlast sep) sep"
    using Cons.prems str_in_startswith by blast
  then have ns: "\<not> startswith ((c # a) @ sep @ b) sep"
    using startswith_shorter[OF _ assms(1), of "c # a" b] by blast
  have "\<not> str_in sep (a @ butlast sep)" using Cons.prems by simp
  then have "hd (py_split_from sep (cur @ [c]) (a @ sep @ b)) = (cur @ [c]) @ a"
    by (rule Cons.IH)
  then show ?case using ns by simp
qed

lemma py_replace_absent:
  "\<not> str_in old s \<Longrightarrow> py_replace old new s = s"
  by (induction s) auto

lemma py_replace_prefix:
  "old \<noteq> [] \<Longrightarrow> py_replace old new (old @ s) = new @ py_replace old new s"
  by (cases old) (auto simp: startswith_def)

lemma find_none:
  "list_all (\<lambda>x. \<not> P x) xs \<Longrightarrow> find P xs = None"
  by (induction xs) auto

section \<open>Facts about the example worlds\<close>

lemma serving_fetch: "lddb_get (serving pg) alien_url = Fetched pg"
  by (simp add: serving_def offline_world_def)

lemma serving_search: "search_lddb_catalog_number (serving pg) ''1090-85'' = Some alien_url"
  by (simp add: serving_def offline_world_def search_lddb_catalog_number_def alien_url_def
        startswith_def)

lemma alien_request_number: "catalog_number_of (PDict [(''catalog_number'', PStr ''1090-85'')]) = Inr ''1090-85''"
  by (simp add: catalog_number_of_def dict_get_default_def strip_def is_space_def)

lemma alien_url_nonempty: "alien_url \<noteq> []"
  by (simp add: alien_url_def)

lemma scraped_field_eval:
  "scrape_lddb_metadata w url = Some md \<Longrightarrow> scraped_field w url k = Some (dict_get md k)"
  by (simp add: scraped_field_def)

lemma alien_scrape: "scrape_lddb_metadata (serving alien_page) alien_url = Some alien_extracted"
  by (simp add: serving_fetch scrape_lddb_metadata_def)
     (simp add: alien_page_def alien_extracted_def blank_page_def alien_url_def
        extractor_eval string_eval dict_eval)

lemma alien_enhance:
  "enhance_with_tmdb (serving pg) (PStr ''Alien'') (PInt 1979) = Some alien_enrichment"
  by (simp add: serving_def offline_world_def alien_search_def alien_details_def
        alien_enrichment_def enricher_eval string_eval dict_eval)

lemma two_groups_scrape:
  "scrape_lddb_metadata (serving two_groups_page) alien_url
     = Some (dict_set (dict_set alien_extracted ''title'' (PStr ''Aliens'')) ''year'' (PInt 1986))"
  by (simp add: serving_fetch scrape_lddb_metadata_def)
     (simp add: two_groups_page_def alien_page_def alien_extracted_def blank_page_def
        alien_url_def extractor_eval string_eval dict_eval)

lemma two_lines_scrape:
  "scrape_lddb_metadata (serving two_lines_page) alien_url
     = Some (dict_set (dict_set alien_extracted ''title''
               (PStr (''Alien'' @ [CHR 0x0A] @ ''Resurrection [LaserDisc]''))) ''year'' (PInt 1997))"
  by (simp add: serving_fetch scrape_lddb_metadata_def)
     (simp add: two_lines_page_def alien_page_def alien_extracted_def blank_page_def
        alien_url_def extractor_eval string_eval dict_eval)

lemma dash_scrape:
  "scrape_lddb_metadata (serving dash_page) alien_url
     = Some (dict_set (initial_metadata alien_url) ''title'' (PStr ''Blade Runner''))"
  by (simp add: serving_fetch scrape_lddb_metadata_def)
     (simp add: dash_page_def blank_page_def alien_url_def extractor_eval string_eval dict_eval)

lemma heading_scrape:
  "scrape_lddb_metadata (serving heading_page) alien_url
     = Some (dict_set (initial_metadata alien_url) ''title'' (PStr ''Brazil''))"
  by (simp add: serving_fetch scrape_lddb_metadata_def)
     (simp add: heading_page_def blank_page_def alien_url_def extractor_eval string_eval dict_eval)

lemma empty_title_scrape:
  "scrape_lddb_metadata (serving empty_title_page) alien_url
     = Some (dict_set (dict_set (initial_metadata alien_url) ''title'' (PStr [])) ''year'' (PInt 1995))"
  by (simp add: serving_fetch scrape_lddb_metadata_def)
     (simp add: empty_title_page_def blank_page_def alien_url_def extractor_eval string_eval
        dict_eval)

lemma bare_scrape:
  "scrape_lddb_metadata (serving bare_page) alien_url
     = Some (dict_set (initial_metadata alien_url) ''year'' (PInt 1982))"
  by (simp add: serving_fetch scrape_lddb_metadata_def)
     (simp add: bare_page_def blank_page_def alien_url_def extractor_eval string_eval dict_eval)

lemma two_runtimes_scrape:
  "scrape_lddb_metadata (serving two_runtimes_page) alien_url
     = Some (dict_set alien_extracted ''runtime'' (PInt 120))"
  by (simp add: serving_fetch scrape_lddb_metadata_def)
     (simp add: two_runtimes_page_def alien_page_def alien_extracted_def blank_page_def
        alien_url_def extractor_eval string_eval dict_eval)




lemma strip_long_text: "strip long_text = long_text"
  by (rule strip_no_space) (simp_all add: long_text_def is_space_def)

lemma long_description_scrape:
  "scrape_lddb_metadata (serving long_description_page) alien_url
     = Some (dict_set alien_extracted ''description'' (PStr (take 500 (strip long_text))))"
  by (simp add: serving_fetch scrape_lddb_metadata_def)
     (simp add: long_description_page_def alien_page_def alien_extracted_def blank_page_def
        alien_url_def extractor_eval string_eval dict_eval)

section \<open>The Locator\<close>

lemma scan_links_skip:
  "\<not> (href_matches href \<and> href_usable href) \<Longrightarrow>
     scan_links unq (href # rest) = scan_links unq rest"
  by (auto simp: href_matches_def href_usable_def)

lemma scan_links_none:
  "list_all (\<lambda>h. \<not> (href_matches h \<and> href_usable h)) hrefs \<Longrightarrow> scan_links unq hrefs = None"
proof (induction hrefs)
  case Nil
  show ?case by simp
next
  case (Cons h hs)
  then have "scan_links unq (h # hs) = scan_links unq hs"
    using scan_links_skip[of h unq hs] by simp
  with Cons show ?case by simp
qed

lemma scan_links_direct:
  "href_matches href \<Longrightarrow> \<not> startswith href ''/url?q='' \<Longrightarrow>
     startswith href ''https://www.lddb.com'' \<Longrightarrow> scan_links unq (href # rest) = Some href"
  by (simp add: href_matches_def)

text \<open>
  The redirect form in the regular case: when the text between the prefix and the first
  ampersand holds no further \<^verbatim>\<open>/url?q=\<close>, the candidate is that text, decoded.
\<close>

lemma clean_redirect:
  assumes "CHR ''&'' \<notin> set mid" and "tail = [] \<or> hd tail = CHR ''&''"
    and "\<not> str_in ''/url?q='' mid"
  shows "py_replace ''/url?q='' [] (hd (py_split (''/url?q='' @ mid @ tail) ''&'')) = mid"
proof -
  have "takeWhile (\<lambda>c. c \<noteq> CHR ''&'') (''/url?q='' @ mid @ tail) = ''/url?q='' @ mid"
    using assms(1,2) by (cases tail) (auto simp: takeWhile_append)
  then have "hd (py_split (''/url?q='' @ mid @ tail) ''&'') = ''/url?q='' @ mid"
    unfolding py_split_def by (simp only: hd_py_split_from_char append_Nil)
  moreover have "py_replace ''/url?q='' [] (''/url?q='' @ mid) = [] @ py_replace ''/url?q='' [] mid"
    by (rule py_replace_prefix) simp
  ultimately show ?thesis using assms(3) by (simp add: py_replace_absent)
qed

lemma scan_links_redirect:
  assumes "href = ''/url?q='' @ mid @ tail" and "href_matches href"
    and "CHR ''&'' \<notin> set mid" and "tail = [] \<or> hd tail = CHR ''&''"
    and "\<not> str_in ''/url?q='' mid"
  shows "scan_links unq (href # rest) = Some (unq mid)"
proof -
  have "startswith href ''/url?q=''"
    using assms(1) by (simp add: startswith_def)
  moreover have "py_replace ''/url?q='' [] (hd (py_split href ''&'')) = mid"
    using clean_redirect[OF assms(3,4,5)] assms(1) by simp
  ultimately show ?thesis using assms(2) by (simp add: href_matches_def)
qed

text \<open>
  Claim C5. The Locator scans the anchors in document order, skips those that do not match
  or are of neither form, returns a fully qualified target unchanged (lemmas
  \<open>scan_links_skip\<close>, \<open>scan_links_direct\<close>) and, for a redirect link, the decoded text
  between the prefix and the first ampersand (lemma \<open>scan_links_redirect\<close>), but only when
  that text holds no further \<^verbatim>\<open>/url?q=\<close>: line 38 removes the prefix with \<^verbatim>\<open>replace\<close>, which
  deletes every occurrence. On the anchor below the claim asks for the decoding of
  \<^verbatim>\<open>https://www.lddb.com/laserdisc/1/url?q=2\<close>, the text between the prefix and the first
  ampersand (second conjunct); the code returns the decoding of
  \<^verbatim>\<open>https://www.lddb.com/laserdisc/12\<close> (first conjunct).
\<close>

theorem redirect_inner_prefix_deleted:
  "scan_links unq (nested_redirect_href # rest) = Some (unq ''https://www.lddb.com/laserdisc/12'')
   \<and> takeWhile (\<lambda>c. c \<noteq> CHR ''&'') (drop (length ''/url?q='') nested_redirect_href)
       = ''https://www.lddb.com/laserdisc/1/url?q=2''"
  by (simp add: nested_redirect_href_def startswith_def py_split_def)

text \<open>
  Claim C3. When the search request fails, for whichever of the three reasons, or no anchor
  of the page yields a candidate (none matches, or the matching ones are of neither
  accepted form), the Locator returns
  \<open>None\<close> whatever the cause, and the endpoint, for a catalog number that is not empty,
  answers with status 200 and the status field \<^verbatim>\<open>not_found\<close>, after the one call of the
  Locator. The Locator's result type has no exception: the handler of line 50 catches all.
\<close>

theorem locator_not_found:
  assumes "(\<exists>f. google_get w cn = Failed f)
           \<or> (\<exists>hrefs. google_get w cn = Fetched hrefs
                 \<and> list_all (\<lambda>h. \<not> (href_matches h \<and> href_usable h)) hrefs)"
  shows "search_lddb_catalog_number w cn = None
         \<and> (catalog_number_of data = Inr cn \<and> cn \<noteq> [] \<longrightarrow>
              fst (fst (lookup_catalog w (JsonBody data))) = 200
              \<and> map_of (snd (fst (lookup_catalog w (JsonBody data)))) ''status''
                  = Some (PStr ''not_found'')
              \<and> snd (lookup_catalog w (JsonBody data)) = [LocatorCall cn])"
proof -
  have none: "search_lddb_catalog_number w cn = None"
    using assms by (auto simp: search_lddb_catalog_number_def scan_links_none)
  then show ?thesis
    by (simp add: lookup_catalog_def run_pipeline_def not_found_body_def)
qed

theorem locator_not_found_witness:
  "search_lddb_catalog_number no_match_world ''PILF-1557'' = None
   \<and> catalog_number_of (PDict [(''catalog_number'', PStr '' PILF-1557 '')]) = Inr ''PILF-1557''
   \<and> lookup_catalog no_match_world (JsonBody (PDict [(''catalog_number'', PStr '' PILF-1557 '')]))
       = ((200, not_found_body ''PILF-1557''), [LocatorCall ''PILF-1557''])
   \<and> google_get offline_world ''PILF-1557'' = Failed ConnectionFailed
   \<and> search_lddb_catalog_number offline_world ''PILF-1557'' = None
   \<and> google_get throttled_world ''PILF-1557'' = Failed (BadStatus 429)
   \<and> search_lddb_catalog_number throttled_world ''PILF-1557'' = None
   \<and> lookup_catalog throttled_world (JsonBody (PDict [(''catalog_number'', PStr '' PILF-1557 '')]))
       = ((200, not_found_body ''PILF-1557''), [LocatorCall ''PILF-1557''])"
proof -
  let ?data = "PDict [(''catalog_number'', PStr '' PILF-1557 '')]"
  have cn: "catalog_number_of ?data = Inr ''PILF-1557''"
    by (simp add: catalog_number_of_def dict_get_default_def strip_def is_space_def)
  have hyp: "(\<exists>f. google_get no_match_world ''PILF-1557'' = Failed f)
             \<or> (\<exists>hrefs. google_get no_match_world ''PILF-1557'' = Fetched hrefs
                   \<and> list_all (\<lambda>h. \<not> (href_matches h \<and> href_usable h)) hrefs)"
    by (simp add: no_match_world_def offline_world_def href_matches_def href_usable_def
          startswith_def)
  have g1: "google_get offline_world ''PILF-1557'' = Failed ConnectionFailed"
    by (simp add: offline_world_def)
  have g2: "google_get throttled_world ''PILF-1557'' = Failed (BadStatus 429)"
    by (simp add: throttled_world_def offline_world_def)
  have off: "(\<exists>f. google_get offline_world ''PILF-1557'' = Failed f)
             \<or> (\<exists>hrefs. google_get offline_world ''PILF-1557'' = Fetched hrefs
                   \<and> list_all (\<lambda>h. \<not> (href_matches h \<and> href_usable h)) hrefs)"
    using g1 by simp
  have thr: "(\<exists>f. google_get throttled_world ''PILF-1557'' = Failed f)
             \<or> (\<exists>hrefs. google_get throttled_world ''PILF-1557'' = Fetched hrefs
                   \<and> list_all (\<lambda>h. \<not> (href_matches h \<and> href_usable h)) hrefs)"
    using g2 by simp
  have resp: "lookup_catalog no_match_world (JsonBody ?data)
                = ((200, not_found_body ''PILF-1557''), [LocatorCall ''PILF-1557''])"
    using locator_not_found[OF hyp, of ?data] cn
    by (simp add: lookup_catalog_def run_pipeline_def)
  have resp2: "lookup_catalog throttled_world (JsonBody ?data)
                = ((200, not_found_body ''PILF-1557''), [LocatorCall ''PILF-1557''])"
    using locator_not_found[OF thr, of ?data] cn
    by (simp add: lookup_catalog_def run_pipeline_def)
  from locator_not_found[OF hyp, of ?data] locator_not_found[OF off, of ?data]
    locator_not_found[OF thr, of ?data] cn resp resp2 g1 g2
  show ?thesis by simp
qed

section \<open>The lookup endpoint: requests without a catalog number\<close>

text \<open>
  Claim C2 as stated fails. A JSON body that is no object has no \<^verbatim>\<open>catalog_number\<close> field
  either: an empty array and \<^verbatim>\<open>null\<close> are such bodies. On them \<^verbatim>\<open>data.get\<close> of line 225 raises
  an AttributeError, and the handler of line 274 answers with status 500, not 400.
\<close>

theorem body_not_object_counterexample:
  "lookup_catalog offline_world (JsonBody (PList []))
     = ((500, [(''error'', PStr (exn_str (AttributeError ''list'' ''get'')))]), [])
   \<and> lookup_catalog offline_world (JsonBody PNone)
     = ((500, [(''error'', PStr (exn_str (AttributeError ''NoneType'' ''get'')))]), [])
   \<and> (500::nat) \<noteq> 400"
  by (simp add: lookup_catalog_def catalog_number_of_def)

text \<open>
  Claim C2, amended. A request whose JSON body is an object that has no \<^verbatim>\<open>catalog_number\<close>
  field, or whose \<^verbatim>\<open>catalog_number\<close> is a string that is empty once stripped, is answered
  with status 400 and an object with an \<^verbatim>\<open>error\<close> field, and no stage is called. A request
  whose JSON body is no object is answered with status 500 and an object with an \<^verbatim>\<open>error\<close>
  field, and no stage is called either.
\<close>

theorem missing_catalog_number:
  "(data = PDict d
      \<and> (map_of d ''catalog_number'' = None
           \<or> (\<exists>s. map_of d ''catalog_number'' = Some (PStr s) \<and> strip s = []))
      \<longrightarrow> lookup_catalog w (JsonBody data)
            = ((400, [(''error'', PStr ''Missing catalog number'')]), []))
   \<and> ((\<forall>d'. data \<noteq> PDict d')
      \<longrightarrow> lookup_catalog w (JsonBody data)
            = ((500, [(''error'', PStr (exn_str (AttributeError (type_name data) ''get'')))]), []))"
proof (intro conjI impI)
  assume "data = PDict d
      \<and> (map_of d ''catalog_number'' = None
           \<or> (\<exists>s. map_of d ''catalog_number'' = Some (PStr s) \<and> strip s = []))"
  then show "lookup_catalog w (JsonBody data)
            = ((400, [(''error'', PStr ''Missing catalog number'')]), [])"
    by (auto simp: lookup_catalog_def catalog_number_of_def dict_get_default_def strip_def)
next
  assume "\<forall>d'. data \<noteq> PDict d'"
  then show "lookup_catalog w (JsonBody data)
            = ((500, [(''error'', PStr (exn_str (AttributeError (type_name data) ''get'')))]), [])"
    by (cases data) (simp_all add: lookup_catalog_def catalog_number_of_def)
qed

theorem missing_catalog_number_witness:
  "lookup_catalog offline_world (JsonBody (PDict []))
     = ((400, [(''error'', PStr ''Missing catalog number'')]), [])
   \<and> strip '' '' = []
   \<and> lookup_catalog offline_world (JsonBody (PDict [(''catalog_number'', PStr '' '')]))
     = ((400, [(''error'', PStr ''Missing catalog number'')]), [])
   \<and> lookup_catalog offline_world (JsonBody (PStr ''PILF-1557''))
     = ((500, [(''error'', PStr (exn_str (AttributeError ''str'' ''get'')))]), [])"
proof -
  have blank: "strip '' '' = []"
    by (simp add: strip_def is_space_def)
  have a: "lookup_catalog offline_world (JsonBody (PDict []))
             = ((400, [(''error'', PStr ''Missing catalog number'')]), [])"
    using missing_catalog_number[of "PDict []" "[]" offline_world] by simp
  have b: "lookup_catalog offline_world (JsonBody (PDict [(''catalog_number'', PStr '' '')]))
             = ((400, [(''error'', PStr ''Missing catalog number'')]), [])"
    using missing_catalog_number[of "PDict [(''catalog_number'', PStr '' '')]"
        "[(''catalog_number'', PStr '' '')]" offline_world] blank
    by simp
  have c: "lookup_catalog offline_world (JsonBody (PStr ''PILF-1557''))
     = ((500, [(''error'', PStr (exn_str (AttributeError ''str'' ''get'')))]), [])"
    using missing_catalog_number[of "PStr ''PILF-1557''" "[]" offline_world] by simp
  from a blank b c show ?thesis by simp
qed

text \<open>
  Outside the claim: an object whose \<^verbatim>\<open>catalog_number\<close> is no string raises an AttributeError
  in line 225, and a request that \<^verbatim>\<open>get_json\<close> refuses raises there; the handler of line 274
  answers each with status 500, again without a call of a stage.
\<close>

lemma number_without_strip:
  "map_of d ''catalog_number'' = Some (PInt n) \<Longrightarrow>
     lookup_catalog w (JsonBody (PDict d))
       = ((500, [(''error'', PStr (exn_str (AttributeError ''int'' ''strip'')))]), [])"
  by (simp add: lookup_catalog_def catalog_number_of_def dict_get_default_def)

lemma refused_request:
  "lookup_catalog w (GetJsonRaises msg) = ((500, [(''error'', PStr msg)]), [])"
  by (simp add: lookup_catalog_def)

section \<open>The Extractor: frame lemmas\<close>

lemma year_step_total:
  "\<exists>md'. year_step pg md = Inr md'"
  by (auto simp: year_step_def py_int_digits max_str_digits_def dest!: year_search_digits
        split: option.splits)

lemma dt_loop_append:
  "dt_loop md (ps @ qs) = (case dt_loop md ps of Inl e \<Rightarrow> Inl e | Inr m \<Rightarrow> dt_loop m qs)"
  by (induction ps arbitrary: md) (auto split: sum.splits)

lemma dt_step_frame:
  "dt_target pair \<noteq> Some k \<Longrightarrow> dt_step md pair = Inr md' \<Longrightarrow> map_of md' k = map_of md k"
  by (auto simp: dt_step_def dt_target_def Let_def map_of_dict_set
        split: option.splits if_splits)

lemma dt_loop_frame:
  "list_all (\<lambda>q. dt_target q \<noteq> Some k) qs \<Longrightarrow> dt_loop md qs = Inr md' \<Longrightarrow>
     map_of md' k = map_of md k"
proof (induction qs arbitrary: md)
  case Nil
  then show ?case by simp
next
  case (Cons q qs)
  obtain m where m: "dt_step md q = Inr m" and r: "dt_loop m qs = Inr md'"
    using Cons.prems(2) by (auto split: sum.splits)
  have "list_all (\<lambda>q. dt_target q \<noteq> Some k) qs" using Cons.prems by simp
  then have "map_of md' k = map_of m k" using r by (rule Cons.IH)
  moreover have "map_of m k = map_of md k"
    using Cons.prems(1) m by (intro dt_step_frame[of q k md m]) simp_all
  ultimately show ?case by simp
qed

lemma dt_step_other:
  "k \<notin> {''director'', ''genres'', ''runtime'', ''catalogNumber''} \<Longrightarrow>
     dt_step md pair = Inr md' \<Longrightarrow> map_of md' k = map_of md k"
  by (auto simp: dt_step_def Let_def map_of_dict_set split: option.splits if_splits)

lemma dt_loop_other:
  "k \<notin> {''director'', ''genres'', ''runtime'', ''catalogNumber''} \<Longrightarrow>
     dt_loop md ps = Inr md' \<Longrightarrow> map_of md' k = map_of md k"
proof (induction ps arbitrary: md)
  case Nil
  then show ?case by simp
next
  case (Cons p ps)
  obtain m where m: "dt_step md p = Inr m" and r: "dt_loop m ps = Inr md'"
    using Cons.prems(2) by (auto split: sum.splits)
  have "map_of md' k = map_of m k" using Cons.prems(1) r by (rule Cons.IH)
  moreover have "map_of m k = map_of md k" using Cons.prems(1) m by (rule dt_step_other)
  ultimately show ?case by simp
qed

lemma cast_step_other:
  "k \<noteq> ''cast'' \<Longrightarrow> map_of (cast_step pg md) k = map_of md k"
  by (simp add: cast_step_def Let_def map_of_dict_set)

lemma description_step_other:
  "k \<noteq> ''description'' \<Longrightarrow> map_of (description_step pg md) k = map_of md k"
  by (simp add: description_step_def map_of_dict_set split: option.splits)

lemma description_step_description:
  "map_of (description_step pg md) ''description'' =
     (case find_description pg of
        None \<Rightarrow> map_of md ''description''
      | Some e \<Rightarrow> Some (PStr (take 500 (strip (el_text e)))))"
  by (simp add: description_step_def map_of_dict_set split: option.splits)

lemma cover_step_other:
  "k \<noteq> ''coverUrl'' \<Longrightarrow> cover_step pg md = Inr md' \<Longrightarrow> map_of md' k = map_of md k"
  by (auto simp: cover_step_def Let_def map_of_dict_set split: sum.splits option.splits if_splits)

lemma year_step_other:
  "k \<noteq> ''year'' \<Longrightarrow> year_step pg md = Inr md' \<Longrightarrow> map_of md' k = map_of md k"
  by (auto simp: year_step_def map_of_dict_set split: option.splits)

lemma title_steps_other:
  "k \<noteq> ''title'' \<Longrightarrow> map_of (h1_step pg (title_step pg md)) k = map_of md k"
  by (simp add: h1_step_def title_step_def map_of_dict_set split: option.splits)

lemma parse_page_stages:
  assumes "parse_page pg url = Inr md"
  obtains md1 md2 md3 where
    "year_step pg (h1_step pg (title_step pg (initial_metadata url))) = Inr md1"
    "cover_step pg md1 = Inr md2"
    "dt_loop md2 (dt_elements pg) = Inr md3"
    "md = description_step pg (cast_step pg md3)"
  using assms by (auto simp: parse_page_def split: sum.splits)

lemma parse_page_title:
  assumes "parse_page pg url = Inr md"
  shows "map_of md ''title'' = map_of (h1_step pg (title_step pg (initial_metadata url))) ''title''"
proof -
  from assms obtain md1 md2 md3 where
    s1: "year_step pg (h1_step pg (title_step pg (initial_metadata url))) = Inr md1" and
    s2: "cover_step pg md1 = Inr md2" and
    s3: "dt_loop md2 (dt_elements pg) = Inr md3" and
    s4: "md = description_step pg (cast_step pg md3)"
    by (rule parse_page_stages)
  have "map_of md ''title'' = map_of md3 ''title''"
    unfolding s4 by (simp add: description_step_def cast_step_other map_of_dict_set split: option.splits)
  also have "\<dots> = map_of md2 ''title''" using dt_loop_other[OF _ s3, of "''title''"] by simp
  also have "\<dots> = map_of md1 ''title''" using cover_step_other[OF _ s2, of "''title''"] by simp
  also have "\<dots> = map_of (h1_step pg (title_step pg (initial_metadata url))) ''title''"
    using year_step_other[OF _ s1, of "''title''"] by simp
  finally show ?thesis .
qed

lemma title_steps_title:
  "map_of (h1_step pg (title_step pg (initial_metadata url))) ''title'' =
     Some (PStr (let t0 = (case title_element pg of None \<Rightarrow> ''Unknown Title''
                            | Some txt \<Rightarrow> title_from_text txt)
                 in case h1_element pg of
                      None \<Rightarrow> t0
                    | Some h \<Rightarrow> if t0 = ''Unknown Title'' then strip h else t0))"
  by (simp add: h1_step_def title_step_def dict_get_dict_set map_of_dict_set initial_metadata_def
        dict_get_def Let_def split: option.splits)

section \<open>The Extractor: title\<close>

lemma bracket_follows_spaces:
  "list_all is_space ws \<Longrightarrow> bracket_follows (ws @ CHR ''['' # rest)"
  by (induction ws) (auto simp: bracket_follows_def is_space_def)

lemma bracket_follows_blocked:
  assumes "body \<noteq> []" and "\<not> is_space (last body)" and "CHR ''['' \<notin> set body"
  shows "\<not> bracket_follows (body @ rest)"
proof -
  have ex: "\<exists>x\<in>set body. \<not> is_space x" using assms(1,2) by (metis last_in_set)
  then obtain x where "x \<in> set body" and "\<not> is_space x" by blast
  then have "dropWhile is_space (body @ rest) = dropWhile is_space body @ rest"
    by (rule dropWhile_append1)
  moreover have ne: "dropWhile is_space body \<noteq> []" using ex by (simp add: dropWhile_eq_Nil_conv)
  moreover have "hd (dropWhile is_space body) \<in> set body"
    using ne by (metis hd_in_set set_dropWhileD)
  ultimately show ?thesis
    using assms(3) by (cases "dropWhile is_space body") (auto simp: bracket_follows_def)
qed

lemma title_match_from_body:
  assumes "body \<noteq> []" and "\<not> is_space (last body)" and "CHR ''['' \<notin> set body"
    and "CHR 0x0A \<notin> set body" and "list_all is_space ws"
  shows "title_match_from grp (body @ ws @ CHR ''['' # rest) = Some (grp @ body)"
  using assms
proof (induction body arbitrary: grp)
  case Nil
  then show ?case by simp
next
  case (Cons c body)
  show ?case
  proof (cases "body = []")
    case True
    then show ?thesis using Cons.prems by (simp add: bracket_follows_spaces)
  next
    case False
    then have "\<not> bracket_follows (body @ ws @ CHR ''['' # rest)"
      using Cons.prems by (intro bracket_follows_blocked) auto
    moreover have "title_match_from (grp @ [c]) (body @ ws @ CHR ''['' # rest)
                     = Some ((grp @ [c]) @ body)"
      using False Cons.prems by (intro Cons.IH) auto
    ultimately show ?thesis using Cons.prems by auto
  qed
qed

lemma title_match_from_no_bracket:
  "CHR ''['' \<notin> set s \<Longrightarrow> title_match_from grp s = None"
proof (induction s arbitrary: grp)
  case Nil
  show ?case by simp
next
  case (Cons c s)
  have "\<not> bracket_follows s"
    using Cons.prems
    by (auto simp: bracket_follows_def split: list.splits dest: set_dropWhileD[rotated])
       (metis list.set_intros(1) set_dropWhileD)
  then show ?case using Cons by simp
qed

lemma title_before_bracket:
  assumes "strip txt = pre @ CHR ''['' # rest" and "pre \<noteq> []" and "CHR ''['' \<notin> set pre"
    and "CHR 0x0A \<notin> set (strip pre)"
  shows "title_from_text txt = strip pre"
proof -
  have "\<not> is_space (hd (strip txt))" using assms(1) by (intro strip_hd) simp
  then have "\<not> is_space (hd pre)" using assms(1,2) by (cases pre) auto
  then obtain ws where ws: "pre = strip pre @ ws" "list_all is_space ws" "strip pre \<noteq> []"
    using rstrip_decomp[OF assms(2)] by blast
  have nb: "CHR ''['' \<notin> set (strip pre)"
    using assms(3) ws(1) by (metis Un_iff set_append)
  have "strip txt = strip pre @ ws @ CHR ''['' # rest"
    using assms(1) ws(1) by (metis append.assoc)
  then have "title_match (strip txt) = Some (strip pre)"
    unfolding title_match_def
    using title_match_from_body[OF ws(3) strip_last[OF ws(3)] nb assms(4) ws(2), of "[]" rest]
    by simp
  then show ?thesis by (simp add: title_from_text_def strip_strip)
qed

lemma title_no_bracket:
  assumes "CHR ''['' \<notin> set (strip txt)"
  shows "title_from_text txt = strip (hd (py_split (strip txt) '' - ''))"
  using assms by (simp add: title_from_text_def title_match_def title_match_from_no_bracket)

lemma title_before_dash:
  assumes "CHR ''['' \<notin> set (strip txt)" and "strip txt = a @ '' - '' @ b"
    and "\<not> str_in '' - '' (a @ '' -'')"
  shows "title_from_text txt = strip a"
proof -
  have "hd (py_split_from '' - '' [] (a @ '' - '' @ b)) = [] @ a"
    by (rule hd_py_split_from_first) (use assms(3) in simp_all)
  then show ?thesis
    using title_no_bracket[OF assms(1)] assms(2) by (simp add: py_split_def)
qed

lemma title_no_dash:
  assumes "CHR ''['' \<notin> set (strip txt)" and "\<not> str_in '' - '' (strip txt)"
  shows "title_from_text txt = strip txt"
  using title_no_bracket[OF assms(1)] assms(2)
  by (simp add: py_split_def py_split_from_absent strip_strip)

text \<open>
  Claim C6 as stated fails. The pattern of line 86 cuts the title at the first bracket that
  has a character before it, not at a trailing bracketed group: of
  \<^verbatim>\<open>Aliens [Special Edition] [LaserDisc]\<close> the code keeps \<^verbatim>\<open>Aliens\<close>, where the title without
  its trailing group is \<^verbatim>\<open>Aliens [Special Edition]\<close>. And the pattern's group cannot cross a
  line feed: a title of two lines that ends in \<^verbatim>\<open>[LaserDisc]\<close> keeps the group.
\<close>

theorem title_bracket_counterexample:
  "title_element two_groups_page = Some (''Aliens [Special Edition] '' @ ''[LaserDisc]'')
   \<and> strip ''Aliens [Special Edition] '' = ''Aliens [Special Edition]''
   \<and> scraped_field (serving two_groups_page) alien_url ''title'' = Some (PStr ''Aliens'')
   \<and> ''Aliens'' \<noteq> ''Aliens [Special Edition]''
   \<and> title_element two_lines_page = Some ((''Alien'' @ [CHR 0x0A] @ ''Resurrection '') @ ''[LaserDisc]'')
   \<and> scraped_field (serving two_lines_page) alien_url ''title''
       = Some (PStr (''Alien'' @ [CHR 0x0A] @ ''Resurrection [LaserDisc]''))"
  by (simp add: scraped_field_eval[OF two_groups_scrape] scraped_field_eval[OF two_lines_scrape]
        dict_get_dict_set)
     (simp add: two_groups_page_def two_lines_page_def alien_page_def strip_def is_space_def)

text \<open>
  Claim C6, amended. In the Extractor's output the title is the text \<open>t0\<close> taken from the
  title element (the sentinel when the page has none), replaced by the stripped text of the
  first heading when \<open>t0\<close> is the sentinel and the page has a heading. The text taken from
  a title element is: the stripped text before the first bracket, when the stripped title
  text has a bracket with at least one character before it and no line feed in that text;
  when it has no bracket, the stripped segment before the first \<^verbatim>\<open>" - "\<close>, or the whole
  stripped text when there is no such separator.
\<close>

theorem title_extraction:
  assumes "lddb_get w url = Fetched pg" and "scrape_lddb_metadata w url = Some md"
  shows "map_of md ''title'' =
           Some (PStr (let t0 = (case title_element pg of None \<Rightarrow> ''Unknown Title''
                                  | Some txt \<Rightarrow> title_from_text txt)
                       in case h1_element pg of
                            None \<Rightarrow> t0
                          | Some h \<Rightarrow> if t0 = ''Unknown Title'' then strip h else t0))
         \<and> (\<forall>txt pre rest. strip txt = pre @ CHR ''['' # rest \<and> pre \<noteq> [] \<and> CHR ''['' \<notin> set pre
                \<and> CHR 0x0A \<notin> set (strip pre) \<longrightarrow> title_from_text txt = strip pre)
         \<and> (\<forall>txt a b. CHR ''['' \<notin> set (strip txt) \<and> strip txt = a @ '' - '' @ b
                \<and> \<not> str_in '' - '' (a @ '' -'') \<longrightarrow> title_from_text txt = strip a)
         \<and> (\<forall>txt. CHR ''['' \<notin> set (strip txt) \<and> \<not> str_in '' - '' (strip txt)
                \<longrightarrow> title_from_text txt = strip txt)"
proof -
  have "parse_page pg url = Inr md"
    using assms by (auto simp: scrape_lddb_metadata_def split: sum.splits)
  then have "map_of md ''title'' =
           Some (PStr (let t0 = (case title_element pg of None \<Rightarrow> ''Unknown Title''
                                  | Some txt \<Rightarrow> title_from_text txt)
                       in case h1_element pg of
                            None \<Rightarrow> t0
                          | Some h \<Rightarrow> if t0 = ''Unknown Title'' then strip h else t0))"
    by (simp only: parse_page_title title_steps_title)
  then show ?thesis
    using title_before_bracket title_before_dash title_no_dash by blast
qed

theorem title_extraction_witness:
  "map_of alien_extracted ''title'' = Some (PStr ''Alien'')
   \<and> title_from_text ''Alien [LaserDisc]'' = strip ''Alien ''
   \<and> title_from_text '' Blade Runner - LaserDisc Database '' = strip ''Blade Runner''
   \<and> title_from_text ''Brazil'' = strip ''Brazil''
   \<and> map_of (dict_set (initial_metadata alien_url) ''title'' (PStr ''Brazil'')) ''title''
       = Some (PStr (strip '' Brazil ''))"
proof -
  note a = title_extraction[OF serving_fetch alien_scrape]
  note h = title_extraction[OF serving_fetch heading_scrape]
  note bracket = a[THEN conjunct2, THEN conjunct1, rule_format]
  note dash = a[THEN conjunct2, THEN conjunct2, THEN conjunct1, rule_format]
  note plain = a[THEN conjunct2, THEN conjunct2, THEN conjunct2, rule_format]
  have s2: "strip ''Alien '' = ''Alien''"
    by (simp add: strip_def is_space_def)
  have b: "title_from_text ''Alien [LaserDisc]'' = strip ''Alien ''"
    by (rule bracket[of _ _ "''LaserDisc]''"]) (simp add: strip_def is_space_def)
  have d: "title_from_text '' Blade Runner - LaserDisc Database '' = strip ''Blade Runner''"
    by (rule dash[of _ _ "''LaserDisc Database''"]) (simp add: strip_def is_space_def startswith_def)
  have n: "title_from_text ''Brazil'' = strip ''Brazil''"
    by (rule plain) (simp add: strip_def is_space_def startswith_def)
  have t: "map_of alien_extracted ''title'' = Some (PStr ''Alien'')"
    using a b s2 by (simp add: alien_page_def blank_page_def)
  have f: "map_of (dict_set (initial_metadata alien_url) ''title'' (PStr ''Brazil'')) ''title''
             = Some (PStr (strip '' Brazil ''))"
    using h by (simp add: heading_page_def blank_page_def)
  from t b d n f show ?thesis by simp
qed

section \<open>The Extractor: definition lists\<close>

text \<open>One turn of the loop that raises nothing changes the four fields as follows.\<close>

lemma dt_step_fields:
  assumes "dt_step md (term, Some value) = Inr md'"
    and "label = lower (strip term)" and "v = strip value"
  shows "map_of md' ''director'' =
         (if str_in ''director'' label then Some (PStr v) else map_of md ''director'')"
    and "map_of md' ''genres'' =
         (if \<not> str_in ''director'' label \<and> (str_in ''genre'' label \<or> str_in ''category'' label)
          then Some (PList (map (\<lambda>g. PStr (strip g)) (py_split v '','')))
          else map_of md ''genres'')"
    and "map_of md' ''runtime'' =
         (if \<not> str_in ''director'' label \<and> \<not> str_in ''genre'' label \<and> \<not> str_in ''category'' label
             \<and> (str_in ''runtime'' label \<or> str_in ''duration'' label)
          then (case digits_search v of
                  None \<Rightarrow> map_of md ''runtime''
                | Some ds \<Rightarrow> Some (PInt (digits_val ds)))
          else map_of md ''runtime'')"
    and "map_of md' ''catalogNumber'' =
         (if \<not> str_in ''director'' label \<and> \<not> str_in ''genre'' label \<and> \<not> str_in ''category'' label
             \<and> \<not> str_in ''runtime'' label \<and> \<not> str_in ''duration'' label
             \<and> (str_in ''catalog'' label \<or> str_in ''number'' label)
          then Some (PStr v)
          else map_of md ''catalogNumber'')"
  using assms
  by (auto simp: dt_step_def Let_def map_of_dict_set py_int_digits
        dest!: digits_search_digits split: option.splits if_splits)

text \<open>A turn raises only on a runtime of more than 4300 digits: \<^verbatim>\<open>int()\<close> refuses it, and the
  Extractor returns its failure signal for such a page.\<close>

lemma dt_step_raises:
  "dt_step md pair = Inl e \<longleftrightarrow>
     e = ValueError
     \<and> (\<exists>value ds. snd pair = Some value \<and> dt_target pair = Some ''runtime''
           \<and> digits_search (strip value) = Some ds \<and> max_str_digits < length ds)"
  by (cases pair)
     (auto simp: dt_step_def dt_target_def Let_def py_int_digits
        dest!: digits_search_digits split: option.splits if_splits)

lemma parse_page_dt_loop:
  assumes "parse_page pg url = Inr md"
  shows "\<exists>md2 md3. dt_loop md2 (dt_elements pg) = Inr md3
     \<and> (\<forall>k. k \<noteq> ''cast'' \<and> k \<noteq> ''description'' \<longrightarrow> map_of md k = map_of md3 k)
     \<and> (\<forall>k. k \<noteq> ''title'' \<and> k \<noteq> ''year'' \<and> k \<noteq> ''coverUrl''
            \<longrightarrow> map_of md2 k = map_of (initial_metadata url) k)"
proof -
  from assms obtain md1 md2 md3 where
    s1: "year_step pg (h1_step pg (title_step pg (initial_metadata url))) = Inr md1" and
    s2: "cover_step pg md1 = Inr md2" and
    s3: "dt_loop md2 (dt_elements pg) = Inr md3" and
    s4: "md = description_step pg (cast_step pg md3)"
    by (rule parse_page_stages)
  have late: "\<forall>k. k \<noteq> ''cast'' \<and> k \<noteq> ''description'' \<longrightarrow> map_of md k = map_of md3 k"
    unfolding s4 by (simp add: description_step_other cast_step_other)
  have early: "\<forall>k. k \<noteq> ''title'' \<and> k \<noteq> ''year'' \<and> k \<noteq> ''coverUrl''
            \<longrightarrow> map_of md2 k = map_of (initial_metadata url) k"
    using cover_step_other[OF _ s2] year_step_other[OF _ s1] title_steps_other by simp
  from s3 late early show ?thesis by blast
qed

text \<open>
  Claim C7 as stated fails. The keyword groups are tried in the order of lines 122 to 130
  and the first that the label holds decides: a term that holds both \<^verbatim>\<open>genre\<close> and \<^verbatim>\<open>director\<close>
  sets the director and leaves the genres alone. And the runtime is the first run of digits
  of the value, which for a value that holds \<^verbatim>\<open>120 minutes\<close> need not be 120.
\<close>

theorem dt_pairs_counterexample:
  "str_in ''genre'' (lower (strip ''Genre / Director''))
   \<and> dt_step (initial_metadata alien_url) (''Genre / Director'', Some ''Horror, Sci-Fi'')
       = Inr (dict_set (initial_metadata alien_url) ''director'' (PStr ''Horror, Sci-Fi''))
   \<and> dict_get (dict_set (initial_metadata alien_url) ''director'' (PStr ''Horror, Sci-Fi'')) ''genres''
       = PList []
   \<and> map (\<lambda>g. PStr (strip g)) (py_split (strip ''Horror, Sci-Fi'') '','')
       = [PStr ''Horror'', PStr ''Sci-Fi'']
   \<and> PList [] \<noteq> PList [PStr ''Horror'', PStr ''Sci-Fi'']
   \<and> str_in ''120 minutes'' ''2 sides, 120 minutes''
   \<and> dt_step (initial_metadata alien_url) (''Runtime'', Some ''2 sides, 120 minutes'')
       = Inr (dict_set (initial_metadata alien_url) ''runtime'' (PInt 2))
   \<and> PInt 2 \<noteq> PInt 120"
  by (simp add: dt_step_def dict_get_dict_set string_eval)
     (simp add: initial_metadata_def dict_get_def)

text \<open>
  Claim C7, amended. In every record that the Extractor returns for a page, each pair of a
  term and its value has this effect, with \<open>label\<close> the stripped, lower-cased term and \<open>v\<close> the
  stripped value, each line applying only when no earlier line does: a label holding
  \<^verbatim>\<open>director\<close> sets the director to \<open>v\<close>; \<^verbatim>\<open>genre\<close> or \<^verbatim>\<open>category\<close> sets the genres to the
  stripped segments of \<open>v\<close> between commas; \<^verbatim>\<open>runtime\<close> or \<^verbatim>\<open>duration\<close> sets the runtime to the
  first run of digits of \<open>v\<close>, read as a number, when \<open>v\<close> has a digit; \<^verbatim>\<open>catalog\<close> or \<^verbatim>\<open>number\<close>
  sets the catalog number to \<open>v\<close>. The pairs are taken in document order, so the field holds
  what the pair sets when no later pair of the page is dispatched to the same field; and a
  field of the four that no pair of the page is dispatched to holds its initial value. The
  first run of digits is the one with no digit before it and none right after it.
\<close>

theorem dt_pairs_dispatch:
  assumes "lddb_get w url = Fetched pg" and "scrape_lddb_metadata w url = Some md"
    and "dt_elements pg = ps @ (term, Some value) # qs"
    and "label = lower (strip term)" and "v = strip value"
  shows "(str_in ''director'' label \<and> list_all (\<lambda>q. dt_target q \<noteq> Some ''director'') qs
            \<longrightarrow> map_of md ''director'' = Some (PStr v))
     \<and> (\<not> str_in ''director'' label \<and> (str_in ''genre'' label \<or> str_in ''category'' label)
          \<and> list_all (\<lambda>q. dt_target q \<noteq> Some ''genres'') qs
            \<longrightarrow> map_of md ''genres'' = Some (PList (map (\<lambda>g. PStr (strip g)) (py_split v '',''))))
     \<and> (\<not> str_in ''director'' label \<and> \<not> str_in ''genre'' label \<and> \<not> str_in ''category'' label
          \<and> (str_in ''runtime'' label \<or> str_in ''duration'' label)
          \<and> list_all (\<lambda>q. dt_target q \<noteq> Some ''runtime'') qs
            \<longrightarrow> (\<forall>ds. digits_search v = Some ds
                   \<longrightarrow> map_of md ''runtime'' = Some (PInt (digits_val ds))))
     \<and> (\<not> str_in ''director'' label \<and> \<not> str_in ''genre'' label \<and> \<not> str_in ''category'' label
          \<and> \<not> str_in ''runtime'' label \<and> \<not> str_in ''duration'' label
          \<and> (str_in ''catalog'' label \<or> str_in ''number'' label)
          \<and> list_all (\<lambda>q. dt_target q \<noteq> Some ''catalogNumber'') qs
            \<longrightarrow> map_of md ''catalogNumber'' = Some (PStr v))
     \<and> (\<forall>k. (k = ''director'' \<or> k = ''genres'' \<or> k = ''runtime'' \<or> k = ''catalogNumber'')
            \<and> list_all (\<lambda>q. dt_target q \<noteq> Some k) (dt_elements pg)
            \<longrightarrow> map_of md k = map_of (initial_metadata url) k)
     \<and> (\<forall>pre ds post. v = pre @ ds @ post \<and> list_all (\<lambda>c. \<not> is_digit c) pre \<and> ds \<noteq> []
            \<and> list_all is_digit ds \<and> (post = [] \<or> \<not> is_digit (hd post))
            \<longrightarrow> digits_search v = Some ds)"
proof -
  have pp: "parse_page pg url = Inr md"
    using assms(1,2) by (simp add: scrape_lddb_metadata_def split: sum.splits)
  obtain md2 md3 where
    loop: "dt_loop md2 (dt_elements pg) = Inr md3" and
    late0: "\<forall>k. k \<noteq> ''cast'' \<and> k \<noteq> ''description'' \<longrightarrow> map_of md k = map_of md3 k" and
    early0: "\<forall>k. k \<noteq> ''title'' \<and> k \<noteq> ''year'' \<and> k \<noteq> ''coverUrl''
              \<longrightarrow> map_of md2 k = map_of (initial_metadata url) k"
    using parse_page_dt_loop[OF pp] by (elim exE conjE) (rule that)
  have late: "\<And>k. k \<noteq> ''cast'' \<Longrightarrow> k \<noteq> ''description'' \<Longrightarrow> map_of md k = map_of md3 k"
    using late0 by simp
  have early: "\<And>k. k \<noteq> ''title'' \<Longrightarrow> k \<noteq> ''year'' \<Longrightarrow> k \<noteq> ''coverUrl'' \<Longrightarrow>
              map_of md2 k = map_of (initial_metadata url) k"
    using early0 by simp
  have "(case dt_loop md2 ps of Inl e \<Rightarrow> Inl e
          | Inr m \<Rightarrow> dt_loop m ((term, Some value) # qs)) = Inr md3"
    using loop unfolding assms(3) by (simp only: dt_loop_append)
  then obtain m where "dt_loop m ((term, Some value) # qs) = Inr md3"
    by (cases "dt_loop md2 ps") simp_all
  then obtain m' where
    step: "dt_step m (term, Some value) = Inr m'" and rest: "dt_loop m' qs = Inr md3"
    by (cases "dt_step m (term, Some value)") simp_all
  note f = dt_step_fields[OF step assms(4,5)]
  have stand: "\<And>k. list_all (\<lambda>q. dt_target q \<noteq> Some k) qs \<Longrightarrow> map_of md3 k = map_of m' k"
    using rest by (rule dt_loop_frame[rotated])
  have c1: "str_in ''director'' label \<and> list_all (\<lambda>q. dt_target q \<noteq> Some ''director'') qs
            \<longrightarrow> map_of md ''director'' = Some (PStr v)"
    using f(1) stand[of "''director''"] late[of "''director''"] by simp
  have c2: "\<not> str_in ''director'' label \<and> (str_in ''genre'' label \<or> str_in ''category'' label)
          \<and> list_all (\<lambda>q. dt_target q \<noteq> Some ''genres'') qs
            \<longrightarrow> map_of md ''genres'' = Some (PList (map (\<lambda>g. PStr (strip g)) (py_split v '','')))"
    using f(2) stand[of "''genres''"] late[of "''genres''"] by simp
  have c3: "\<not> str_in ''director'' label \<and> \<not> str_in ''genre'' label \<and> \<not> str_in ''category'' label
          \<and> (str_in ''runtime'' label \<or> str_in ''duration'' label)
          \<and> list_all (\<lambda>q. dt_target q \<noteq> Some ''runtime'') qs
            \<longrightarrow> (\<forall>ds. digits_search v = Some ds
                   \<longrightarrow> map_of md ''runtime'' = Some (PInt (digits_val ds)))"
    using f(3) stand[of "''runtime''"] late[of "''runtime''"] by simp
  have c4: "\<not> str_in ''director'' label \<and> \<not> str_in ''genre'' label \<and> \<not> str_in ''category'' label
          \<and> \<not> str_in ''runtime'' label \<and> \<not> str_in ''duration'' label
          \<and> (str_in ''catalog'' label \<or> str_in ''number'' label)
          \<and> list_all (\<lambda>q. dt_target q \<noteq> Some ''catalogNumber'') qs
            \<longrightarrow> map_of md ''catalogNumber'' = Some (PStr v)"
    using f(4) stand[of "''catalogNumber''"] late[of "''catalogNumber''"] by simp
  have c5: "\<forall>k. (k = ''director'' \<or> k = ''genres'' \<or> k = ''runtime'' \<or> k = ''catalogNumber'')
            \<and> list_all (\<lambda>q. dt_target q \<noteq> Some k) (dt_elements pg)
            \<longrightarrow> map_of md k = map_of (initial_metadata url) k"
  proof (intro allI impI)
    fix k
    assume a: "(k = ''director'' \<or> k = ''genres'' \<or> k = ''runtime'' \<or> k = ''catalogNumber'')
            \<and> list_all (\<lambda>q. dt_target q \<noteq> Some k) (dt_elements pg)"
    then have la: "list_all (\<lambda>q. dt_target q \<noteq> Some k) (dt_elements pg)"
      and k: "k = ''director'' \<or> k = ''genres'' \<or> k = ''runtime'' \<or> k = ''catalogNumber''"
      by simp_all
    have e3: "map_of md3 k = map_of md2 k"
      using la loop by (rule dt_loop_frame)
    have e4: "map_of md k = map_of md3 k"
      using k late[of "''director''"] late[of "''genres''"] late[of "''runtime''"]
        late[of "''catalogNumber''"]
      by (elim disjE) simp_all
    have e2: "map_of md2 k = map_of (initial_metadata url) k"
      using k early[of "''director''"] early[of "''genres''"] early[of "''runtime''"]
        early[of "''catalogNumber''"]
      by (elim disjE) simp_all
    show "map_of md k = map_of (initial_metadata url) k"
      by (simp only: e4 e3 e2)
  qed
  have c6: "\<forall>pre ds post. v = pre @ ds @ post \<and> list_all (\<lambda>c. \<not> is_digit c) pre \<and> ds \<noteq> []
            \<and> list_all is_digit ds \<and> (post = [] \<or> \<not> is_digit (hd post))
            \<longrightarrow> digits_search v = Some ds"
    using digits_search_first by blast
  from c1 c2 c3 c4 c5 c6 show ?thesis by (intro conjI)
qed

theorem dt_pairs_dispatch_witness:
  "lddb_get (serving two_runtimes_page) alien_url = Fetched two_runtimes_page
   \<and> dt_elements two_runtimes_page
       = [(''Runtime'', Some ''95 min'')] @ (''Runtime'', Some ''120 minutes'')
           # [(''Format'', Some ''CLV'')]
   \<and> lower (strip ''Runtime'') = ''runtime''
   \<and> digits_search (strip ''120 minutes'') = Some ''120'' \<and> digits_val ''120'' = 120
   \<and> dt_target (''Format'', Some ''CLV'') = None
   \<and> scraped_field (serving two_runtimes_page) alien_url ''runtime'' = Some (PInt 120)
   \<and> map_of (initial_metadata alien_url) ''director'' = Some PNone
   \<and> scraped_field (serving two_runtimes_page) alien_url ''director'' = Some PNone"
proof -
  have elems: "dt_elements two_runtimes_page
       = [(''Runtime'', Some ''95 min'')] @ (''Runtime'', Some ''120 minutes'')
           # [(''Format'', Some ''CLV'')]"
    by (simp add: two_runtimes_page_def alien_page_def blank_page_def)
  have l: "lower (strip ''Runtime'') = ''runtime''"
    and ds: "digits_search (strip ''120 minutes'') = Some ''120''" and dv: "digits_val ''120'' = 120"
    and tg: "dt_target (''Format'', Some ''CLV'') = None"
    and tr: "dt_target (''Runtime'', Some ''95 min'') = Some ''runtime''"
            "dt_target (''Runtime'', Some ''120 minutes'') = Some ''runtime''"
    by (simp_all add: string_eval dt_target_def)
  have ini: "map_of (initial_metadata alien_url) ''director'' = Some PNone"
    by (simp add: initial_metadata_def)
  note w = dt_pairs_dispatch[OF serving_fetch two_runtimes_scrape elems l[symmetric] refl]
  have r: "map_of (dict_set alien_extracted ''runtime'' (PInt 120)) ''runtime'' = Some (PInt 120)"
    using w[THEN conjunct2, THEN conjunct2, THEN conjunct1] ds dv tg
    by (simp add: startswith_def)
  have d: "map_of (dict_set alien_extracted ''runtime'' (PInt 120)) ''director'' = Some PNone"
    using w[THEN conjunct2, THEN conjunct2, THEN conjunct2, THEN conjunct2, THEN conjunct1,
        rule_format, of "''director''"] elems tg tr ini
    by simp
  have "scraped_field (serving two_runtimes_page) alien_url ''runtime'' = Some (PInt 120)"
    and "scraped_field (serving two_runtimes_page) alien_url ''director'' = Some PNone"
    using r d by (simp_all add: scraped_field_eval[OF two_runtimes_scrape] dict_get_def)
  with serving_fetch elems l ds dv tg ini show ?thesis by simp
qed

section \<open>The Extractor: description and cover image\<close>

text \<open>
  Claim C8. In the Extractor's output the description is \<open>None\<close> when no element was
  chosen, and otherwise the first 500 characters of the chosen element's stripped text: it
  never has more than 500 characters, and exactly 500 when the stripped text is longer.
\<close>

theorem description_truncated:
  assumes "lddb_get w url = Fetched pg" and "scrape_lddb_metadata w url = Some md"
  shows "map_of md ''description'' =
           (case find_description pg of
              None \<Rightarrow> Some PNone
            | Some e \<Rightarrow> Some (PStr (take 500 (strip (el_text e)))))
         \<and> (\<forall>d. map_of md ''description'' = Some (PStr d) \<longrightarrow> length d \<le> 500)
         \<and> (\<forall>e. find_description pg = Some e \<and> 500 < length (strip (el_text e)) \<longrightarrow>
               (\<exists>d. map_of md ''description'' = Some (PStr d) \<and> length d = 500))"
proof -
  have pp: "parse_page pg url = Inr md"
    using assms by (auto simp: scrape_lddb_metadata_def split: sum.splits)
  then obtain md1 md2 md3 where
    s1: "year_step pg (h1_step pg (title_step pg (initial_metadata url))) = Inr md1" and
    s2: "cover_step pg md1 = Inr md2" and
    s3: "dt_loop md2 (dt_elements pg) = Inr md3" and
    s4: "md = description_step pg (cast_step pg md3)"
    by (rule parse_page_stages)
  have "map_of md1 ''description'' = Some PNone"
    using year_step_other[OF _ s1, of "''description''"]
    by (simp add: title_steps_other initial_metadata_def)
  then have "map_of md2 ''description'' = Some PNone"
    using cover_step_other[OF _ s2, of "''description''"] by simp
  then have "map_of md3 ''description'' = Some PNone"
    using dt_loop_other[OF _ s3, of "''description''"] by simp
  then have "map_of (cast_step pg md3) ''description'' = Some PNone"
    by (simp add: cast_step_other)
  then have main: "map_of md ''description'' =
           (case find_description pg of
              None \<Rightarrow> Some PNone
            | Some e \<Rightarrow> Some (PStr (take 500 (strip (el_text e)))))"
    unfolding s4 by (simp add: description_step_description split: option.splits)
  then show ?thesis by (auto split: option.splits)
qed

theorem description_truncated_witness:
  "find_description long_description_page
     = Some \<lparr>el_class = Some ''movie-description'', el_string = Some long_text, el_text = long_text\<rparr>
   \<and> length (strip long_text) = 600
   \<and> scraped_field (serving long_description_page) alien_url ''description''
       = Some (PStr (replicate 500 (CHR ''a'')))
   \<and> find_description alien_page = None
   \<and> scraped_field (serving alien_page) alien_url ''description'' = Some PNone"
proof -
  note long = description_truncated[OF serving_fetch long_description_scrape]
  note none = description_truncated[OF serving_fetch alien_scrape]
  have f: "find_description long_description_page
     = Some \<lparr>el_class = Some ''movie-description'', el_string = Some long_text, el_text = long_text\<rparr>"
    by (simp add: find_description_def long_description_page_def alien_page_def blank_page_def
          class_is_description_def string_eval)
  have g: "find_description alien_page = None"
    by (simp add: find_description_def alien_page_def blank_page_def string_is_long_def)
  have len: "length (strip long_text) = 600"
    by (simp add: strip_long_text) (simp add: long_text_def)
  have t: "take 500 (strip long_text) = replicate 500 (CHR ''a'')"
    by (simp add: strip_long_text) (simp add: long_text_def)
  have d: "map_of (dict_set alien_extracted ''description'' (PStr (take 500 (strip long_text))))
             ''description'' = Some (PStr (replicate 500 (CHR ''a'')))"
    using long f t by simp
  have e: "map_of alien_extracted ''description'' = Some PNone"
    using none g by simp
  show ?thesis
    using f len d e g
    by (simp add: scraped_field_eval[OF long_description_scrape] scraped_field_eval[OF alien_scrape]
          dict_get_def)
qed

lemma find_img_by_width_raises:
  assumes "list_all (\<lambda>i. width_over_100 (img_width i) \<noteq> Inr True) before"
    and "width_over_100 (img_width bad) = Inl e"
  shows "\<exists>e'. find_img_by_width (before @ bad # after) = Inl e'"
  using assms
proof (induction before)
  case Nil
  then show ?case by simp
next
  case (Cons i before)
  then show ?case by (cases "width_over_100 (img_width i)") auto
qed

text \<open>
  Claim C9. There are pages that are fetched and for which the Extractor returns \<open>None\<close>
  all the same (the witness is one): when no image has a source that holds \<^verbatim>\<open>cover\<close> or
  \<^verbatim>\<open>poster\<close>, and an image has a width that is not empty and that \<^verbatim>\<open>int()\<close> refuses, with no
  image of an integer width over 100 before it, the search of line 106 raises. The title
  and the year had been extracted by then; the handler of line 149 drops them.
\<close>

theorem cover_fallback_abandons_extraction:
  assumes "lddb_get w url = Fetched pg"
    and "list_all (\<lambda>i. \<not> src_is_cover (img_src i)) (img_elements pg)"
    and "img_elements pg = before @ bad # after"
    and "list_all (\<lambda>i. width_over_100 (img_width i) \<noteq> Inr True) before"
    and "img_width bad = Some wd" and "wd \<noteq> []" and "py_int wd = None"
  shows "scrape_lddb_metadata w url = None
         \<and> (\<exists>md1. year_step pg (h1_step pg (title_step pg (initial_metadata url))) = Inr md1)"
proof -
  have "width_over_100 (img_width bad) = Inl ValueError"
    using assms(5,6,7) by (simp add: width_over_100_def)
  then obtain e where "find_img_by_width (img_elements pg) = Inl e"
    using find_img_by_width_raises[OF assms(4)] assms(3) by metis
  moreover have "find (\<lambda>i. src_is_cover (img_src i)) (img_elements pg) = None"
    using assms(2) by (rule find_none)
  moreover have "list_ex (\<lambda>i. img_width i \<noteq> None) (img_elements pg)"
    using assms(3,5) by (simp add: list_ex_iff)
  ultimately have "find_cover_img (img_elements pg) = Inl e"
    by (simp add: find_cover_img_def)
  then have "\<And>md1. cover_step pg md1 = Inl e"
    by (simp add: cover_step_def)
  then have "\<exists>e'. parse_page pg url = Inl e'"
    by (auto simp: parse_page_def split: sum.splits)
  then have "scrape_lddb_metadata w url = None"
    using assms(1) by (auto simp: scrape_lddb_metadata_def)
  then show ?thesis using year_step_total by simp
qed

theorem cover_fallback_witness:
  "lddb_get (serving percent_width_page) alien_url = Fetched percent_width_page
   \<and> img_elements percent_width_page
       = [\<lparr>img_src = Some ''/images/logo.gif'', img_width = None\<rparr>]
         @ \<lparr>img_src = Some ''/images/front.jpg'', img_width = Some ''50%''\<rparr> # []
   \<and> list_all (\<lambda>i. \<not> src_is_cover (img_src i)) (img_elements percent_width_page)
   \<and> py_int ''50%'' = None
   \<and> scrape_lddb_metadata (serving percent_width_page) alien_url = None
   \<and> scrape_lddb_metadata (serving alien_page) alien_url = Some alien_extracted"
proof -
  have imgs: "img_elements percent_width_page
       = [\<lparr>img_src = Some ''/images/logo.gif'', img_width = None\<rparr>]
         @ \<lparr>img_src = Some ''/images/front.jpg'', img_width = Some ''50%''\<rparr> # []"
    by (simp add: percent_width_page_def alien_page_def blank_page_def)
  have nocover: "list_all (\<lambda>i. \<not> src_is_cover (img_src i)) (img_elements percent_width_page)"
    by (simp add: imgs src_is_cover_def string_eval)
  have before: "list_all (\<lambda>i. width_over_100 (img_width i) \<noteq> Inr True)
                  [\<lparr>img_src = Some ''/images/logo.gif'', img_width = None\<rparr>]"
    by (simp add: width_over_100_def)
  have bad: "py_int ''50%'' = None"
    by (simp add: string_eval)
  have "scrape_lddb_metadata (serving percent_width_page) alien_url = None"
    using cover_fallback_abandons_extraction[OF serving_fetch nocover imgs before _ _ bad]
    by simp
  with serving_fetch imgs nocover bad alien_scrape show ?thesis by simp
qed

section \<open>The Enricher: best match\<close>










section \<open>The lookup endpoint: enrichment and merge\<close>

text \<open>
  Claim C10 as stated fails. The guard of line 249 asks for a title and a year that are
  true in a condition. The title is the sentinel only while no title element was found: a
  page with an empty title element gives the empty title, and then the Enricher is not
  called although a year was extracted and an API key is set. (A year of 0, from
  \<^verbatim>\<open>(0000)\<close> in the page, is not true either.)
\<close>

theorem year_without_title_counterexample:
  "catalog_number_of (PDict [(''catalog_number'', PStr ''1090-85'')]) = Inr ''1090-85''
   \<and> search_lddb_catalog_number (serving empty_title_page) ''1090-85'' = Some alien_url
   \<and> scraped_field (serving empty_title_page) alien_url ''year'' = Some (PInt 1995)
   \<and> scraped_field (serving empty_title_page) alien_url ''title'' = Some (PStr [])
   \<and> tmdb_api_key (serving empty_title_page) = Some ''key''
   \<and> snd (lookup_catalog (serving empty_title_page) alien_request)
       = [LocatorCall ''1090-85'', ExtractorCall alien_url]"
proof -
  have y: "scraped_field (serving empty_title_page) alien_url ''year'' = Some (PInt 1995)"
    and t: "scraped_field (serving empty_title_page) alien_url ''title'' = Some (PStr [])"
    by (simp_all add: scraped_field_eval[OF empty_title_scrape] dict_get_dict_set)
  have k: "tmdb_api_key (serving empty_title_page) = Some ''key''"
    by (simp add: tmdb_api_key_def serving_def offline_world_def)
  let ?md = "dict_set (dict_set (initial_metadata alien_url) ''title'' (PStr [])) ''year'' (PInt 1995)"
  have tt: "dict_get ?md ''title'' = PStr []"
    by (simp add: dict_get_dict_set)
  have ne: "?md \<noteq> []"
    by (simp add: dict_set_def initial_metadata_def)
  have c: "snd (lookup_catalog (serving empty_title_page) alien_request)
             = [LocatorCall ''1090-85'', ExtractorCall alien_url]"
    using alien_url_nonempty ne
    by (simp add: lookup_catalog_def alien_request_def alien_request_number run_pipeline_def
          serving_search empty_title_scrape enhance_stage_def tt)
  from alien_request_number serving_search y t k c show ?thesis by simp
qed

text \<open>
  Claim C10, amended. For every request whose extraction succeeds with a title that is
  not empty and a year other than 0, the Enricher is called, after the Locator and the
  Extractor, with that title and that year; when the page has neither a title element nor a
  first heading, that title is the sentinel.
\<close>

theorem enricher_invoked:
  assumes "catalog_number_of data = Inr cn" and "cn \<noteq> []"
    and "search_lddb_catalog_number w cn = Some url" and "url \<noteq> []"
    and "lddb_get w url = Fetched pg"
    and "scrape_lddb_metadata w url = Some md"
    and "dict_get md ''title'' = PStr t" and "t \<noteq> []"
    and "dict_get md ''year'' = PInt y" and "y \<noteq> 0"
  shows "snd (lookup_catalog w (JsonBody data))
           = [LocatorCall cn, ExtractorCall url, EnricherCall (PStr t) (PInt y)]
         \<and> (title_element pg = None \<and> h1_element pg = None \<longrightarrow> t = ''Unknown Title'')"
proof -
  have ne: "md \<noteq> []" using assms(7) by (auto simp: dict_get_def)
  have calls: "snd (lookup_catalog w (JsonBody data))
           = [LocatorCall cn, ExtractorCall url, EnricherCall (PStr t) (PInt y)]"
    using assms ne
    by (simp add: lookup_catalog_def run_pipeline_def enhance_stage_def split: option.splits prod.splits)
  have "title_element pg = None \<and> h1_element pg = None \<longrightarrow> t = ''Unknown Title''"
  proof
    assume none: "title_element pg = None \<and> h1_element pg = None"
    have "parse_page pg url = Inr md"
      using assms(5,6) by (auto simp: scrape_lddb_metadata_def split: sum.splits)
    then have "map_of md ''title'' = Some (PStr ''Unknown Title'')"
      using none by (simp add: parse_page_title title_steps_title)
    then show "t = ''Unknown Title''" using assms(7) by (simp add: dict_get_def)
  qed
  with calls show ?thesis by simp
qed

theorem enricher_invoked_witness:
  "snd (lookup_catalog (serving alien_page) alien_request)
     = [LocatorCall ''1090-85'', ExtractorCall alien_url, EnricherCall (PStr ''Alien'') (PInt 1979)]
   \<and> title_element bare_page = None \<and> h1_element bare_page = None
   \<and> snd (lookup_catalog (serving bare_page) alien_request)
     = [LocatorCall ''1090-85'', ExtractorCall alien_url,
        EnricherCall (PStr ''Unknown Title'') (PInt 1982)]"
proof -
  have a: "snd (lookup_catalog (serving alien_page) (JsonBody (PDict [(''catalog_number'', PStr ''1090-85'')])))
     = [LocatorCall ''1090-85'', ExtractorCall alien_url, EnricherCall (PStr ''Alien'') (PInt 1979)]"
    using enricher_invoked[OF alien_request_number _ serving_search alien_url_nonempty
        serving_fetch alien_scrape, of "''Alien''" 1979]
    by (simp add: alien_extracted_def dict_get_def)
  have b: "snd (lookup_catalog (serving bare_page) (JsonBody (PDict [(''catalog_number'', PStr ''1090-85'')])))
     = [LocatorCall ''1090-85'', ExtractorCall alien_url,
        EnricherCall (PStr ''Unknown Title'') (PInt 1982)]"
    using enricher_invoked[OF alien_request_number _ serving_search alien_url_nonempty
        serving_fetch bare_scrape, of "''Unknown Title''" 1982]
    by (simp add: dict_get_dict_set) (simp add: initial_metadata_def dict_get_def)
  have n: "title_element bare_page = None \<and> h1_element bare_page = None"
    by (simp add: bare_page_def blank_page_def)
  from a b n show ?thesis by (simp add: alien_request_def)
qed

lemma map_of_dict_update_merge:
  "map_of (merge_enhanced md enh) k =
     (if k = ''runtime'' then Some (dict_get_default enh ''runtime'' (dict_get md ''runtime''))
      else if k = ''genres'' then Some (dict_get_default enh ''genres'' (dict_get_default md ''genres'' (PList [])))
      else if k = ''actors'' then Some (dict_get_default enh ''actors'' (dict_get_default md ''cast'' (PList [])))
      else if k = ''director'' then Some (dict_get_default enh ''director'' (dict_get md ''director''))
      else if k = ''tmdbId'' then Some (dict_get enh ''tmdbId'')
      else if k = ''posterUrl'' then Some (py_or (dict_get enh ''posterUrl'') (dict_get md ''coverUrl''))
      else if k = ''description'' then Some (dict_get_default enh ''description'' (dict_get md ''description''))
      else map_of md k)"
  by (simp add: merge_enhanced_def dict_update_def update_conv')

text \<open>
  The merge of lines 254 to 263. A key that the enrichment record holds overwrites the
  field, whatever its value; the director and the actors, which the Enricher sets only when
  it found them, fall back to the Extractor's director and cast; the poster falls back to
  the Extractor's cover when the enrichment record's poster is not true in a condition.
  The enrichment record always holds the keys \<^verbatim>\<open>description\<close>, \<^verbatim>\<open>runtime\<close> and \<^verbatim>\<open>genres\<close>
  (lines 195 to 201), so for them the default of \<^verbatim>\<open>get\<close> is never taken.
\<close>

lemma merge_key_present:
  assumes "map_of enh k = Some v"
    and "k = ''description'' \<or> k = ''director'' \<or> k = ''actors'' \<or> k = ''genres''
         \<or> k = ''runtime''"
  shows "dict_get (merge_enhanced md enh) k = v"
  using assms(2)
proof (elim disjE)
  assume "k = ''description''"
  with assms(1) show ?thesis
    by (simp add: dict_get_def map_of_dict_update_merge dict_get_default_def)
next
  assume "k = ''director''"
  with assms(1) show ?thesis
    by (simp add: dict_get_def map_of_dict_update_merge dict_get_default_def)
next
  assume "k = ''actors''"
  with assms(1) show ?thesis
    by (simp add: dict_get_def map_of_dict_update_merge dict_get_default_def)
next
  assume "k = ''genres''"
  with assms(1) show ?thesis
    by (simp add: dict_get_def map_of_dict_update_merge dict_get_default_def)
next
  assume "k = ''runtime''"
  with assms(1) show ?thesis
    by (simp add: dict_get_def map_of_dict_update_merge dict_get_default_def)
qed

lemma merge_director_absent:
  "map_of enh ''director'' = None \<Longrightarrow>
     dict_get (merge_enhanced md enh) ''director'' = dict_get md ''director''"
  by (simp add: dict_get_def map_of_dict_update_merge dict_get_default_def)

lemma merge_actors_absent:
  "map_of enh ''actors'' = None \<Longrightarrow>
     dict_get (merge_enhanced md enh) ''actors'' = dict_get_default md ''cast'' (PList [])"
  by (simp add: dict_get_def map_of_dict_update_merge dict_get_default_def)

lemma merge_poster:
  "dict_get (merge_enhanced md enh) ''posterUrl'' =
     (if truthy (dict_get enh ''posterUrl'') then dict_get enh ''posterUrl''
      else dict_get md ''coverUrl'')"
  by (simp add: dict_get_def map_of_dict_update_merge py_or_def)

lemma base_record_keys:
  assumes "base_record w movie_id details = Inr enh"
  shows "map_of enh ''tmdbId'' = Some movie_id \<and> map_of enh ''description'' \<noteq> None
         \<and> map_of enh ''posterUrl'' \<noteq> None \<and> map_of enh ''runtime'' \<noteq> None
         \<and> map_of enh ''genres'' \<noteq> None"
  using assms by (auto simp: base_record_def split: sum.splits)

lemma build_enhanced_keys:
  assumes "build_enhanced w movie_id details = Inr enh"
  shows "map_of enh ''description'' \<noteq> None \<and> map_of enh ''runtime'' \<noteq> None
         \<and> map_of enh ''genres'' \<noteq> None"
proof -
  from assms obtain e0 credits e1 where
    b: "base_record w movie_id details = Inr e0" and
    d: "add_director credits e0 = Inr e1" and
    a: "add_actors credits e1 = Inr enh"
    by (auto simp: build_enhanced_def split: sum.splits)
  have k: "\<And>k. k \<noteq> ''director'' \<Longrightarrow> k \<noteq> ''actors'' \<Longrightarrow> map_of enh k = map_of e0 k"
    using d a
    by (auto simp: add_director_def add_actors_def map_of_dict_set split: sum.splits if_splits)
  show ?thesis using base_record_keys[OF b] by (simp add: k)
qed

text \<open>
  Claim C1. The claim holds for the poster, the identifier, the director and the actors
  (lemmas above). For the runtime the code does not do what the claim says and what the
  default in line 262 is written for: the film's details carry no runtime, the enrichment
  record holds \<^verbatim>\<open>runtime\<close> with the value \<open>None\<close>, and the merged record's runtime is \<open>None\<close>
  although the Extractor had read 117 from the page.
\<close>

theorem merge_discards_extracted_runtime:
  "scrape_lddb_metadata (serving alien_page) alien_url = Some alien_extracted
   \<and> dict_get alien_extracted ''runtime'' = PInt 117
   \<and> enhance_with_tmdb (serving alien_page) (PStr ''Alien'') (PInt 1979) = Some alien_enrichment
   \<and> map_of alien_enrichment ''runtime'' = Some PNone
   \<and> dict_get (merge_enhanced alien_extracted alien_enrichment) ''runtime'' = PNone
   \<and> lookup_catalog (serving alien_page) alien_request
       = ((200, success_body (merge_enhanced alien_extracted alien_enrichment) ''1090-85''),
          [LocatorCall ''1090-85'', ExtractorCall alien_url,
           EnricherCall (PStr ''Alien'') (PInt 1979)])"
proof -
  have r: "dict_get alien_extracted ''runtime'' = PInt 117"
    and t: "dict_get alien_extracted ''title'' = PStr ''Alien''"
    and y: "dict_get alien_extracted ''year'' = PInt 1979"
    and ne: "alien_extracted \<noteq> []" "alien_enrichment \<noteq> []"
    by (simp_all add: alien_extracted_def alien_enrichment_def dict_get_def)
  have e: "map_of alien_enrichment ''runtime'' = Some PNone"
    by (simp add: alien_enrichment_def)
  have m: "dict_get (merge_enhanced alien_extracted alien_enrichment) ''runtime'' = PNone"
    using e by (simp add: dict_get_def map_of_dict_update_merge dict_get_default_def)
  have l: "lookup_catalog (serving alien_page) alien_request
       = ((200, success_body (merge_enhanced alien_extracted alien_enrichment) ''1090-85''),
          [LocatorCall ''1090-85'', ExtractorCall alien_url,
           EnricherCall (PStr ''Alien'') (PInt 1979)])"
    using ne alien_url_nonempty
    by (simp add: lookup_catalog_def alien_request_def alien_request_number run_pipeline_def
          serving_search alien_scrape enhance_stage_def t y alien_enhance)
  from alien_scrape r alien_enhance e m l show ?thesis by simp
qed

end
